theory Spec2Isabelle
  imports Main "HOL-Library.AList" "HOL-Library.Char_ord" "HOL-Library.List_Lexorder"
begin

section \<open>Python values\<close>

text \<open>
  The memory layer of the repository (\<^verbatim>\<open>src/knowledge\<close>) and the extraction stage of
  \<^verbatim>\<open>src/agents/knowledge_agent.py\<close> are embedded as state-passing functions. An exception
  is a value of \<open>error\<close>; a function that can raise returns \<open>(error + 'a) \<times> state\<close>, the state
  being the one reached when the exception left the function.

  Values that travel through dictionaries (metadata, node properties, decoded JSON) are
  \<open>pyval\<close>. Floats are not represented. A \<open>char\<close> is a code point below 256.
\<close>

datatype error =
  TypeError | ValueError | KeyError | AttributeError | OverflowError | JSONDecodeError

datatype pyval =
  PNone
  | PBool bool
  | PInt int
  | PStr string
  | PList "pyval list"
  | PDict "(string \<times> pyval) list"

type_synonym pydict = "(string \<times> pyval) list"

text \<open>Truth value testing (\<^verbatim>\<open>if x:\<close>, \<^verbatim>\<open>x or y\<close>).\<close>

fun truthy :: "pyval \<Rightarrow> bool" where
  "truthy PNone = False"
| "truthy (PBool b) = b"
| "truthy (PInt i) = (i \<noteq> 0)"
| "truthy (PStr s) = (s \<noteq> [])"
| "truthy (PList xs) = (xs \<noteq> [])"
| "truthy (PDict kvs) = (kvs \<noteq> [])"

text \<open>
  \<^verbatim>\<open>x if node_id else None\<close> on an \<^verbatim>\<open>Optional[int]\<close>: the id survives the test only when it
  is neither \<^verbatim>\<open>None\<close> nor \<^verbatim>\<open>0\<close>.
\<close>

fun truthy_id :: "int option \<Rightarrow> int option" where
  "truthy_id None = None"
| "truthy_id (Some i) = (if i = 0 then None else Some i)"

text \<open>\<^verbatim>\<open>d.get(k, default)\<close>, \<^verbatim>\<open>d[k] = v\<close> and \<^verbatim>\<open>{**d, **e}\<close> on insertion-ordered dicts.\<close>

definition dict_get :: "('k \<times> 'v) list \<Rightarrow> 'k \<Rightarrow> 'v \<Rightarrow> 'v" where
  "dict_get d k dflt = (case map_of d k of None \<Rightarrow> dflt | Some v \<Rightarrow> v)"

definition dict_merge :: "('k \<times> 'v) list \<Rightarrow> ('k \<times> 'v) list \<Rightarrow> ('k \<times> 'v) list" where
  "dict_merge d e = fold (\<lambda>(k, v). AList.update k v) e d"

text \<open>\<^verbatim>\<open>str(n)\<close> for an int.\<close>

fun digits :: "nat \<Rightarrow> string" where
  "digits n =
     (if n < 10 then [''0123456789'' ! n]
      else digits (n div 10) @ [''0123456789'' ! (n mod 10)])"

declare digits.simps [simp del]

definition str_int :: "int \<Rightarrow> string" where
  "str_int i = (if i < 0 then CHR ''-'' # digits (nat (- i)) else digits (nat i))"

text \<open>
  \<^verbatim>\<open>int(s)\<close> for a str: surrounding whitespace is stripped, one sign is allowed, and the
  digits may be grouped by single underscores.
\<close>

definition is_space :: "char \<Rightarrow> bool" where
  "is_space c = ((of_char c :: nat) \<in> {9, 10, 11, 12, 13, 32, 133, 160})"

definition is_digit :: "char \<Rightarrow> bool" where
  "is_digit c = (48 \<le> (of_char c :: nat) \<and> (of_char c :: nat) \<le> 57)"

definition digit_val :: "char \<Rightarrow> nat" where
  "digit_val c = (of_char c :: nat) - 48"

definition strip :: "string \<Rightarrow> string" where
  "strip s = rev (dropWhile is_space (rev (dropWhile is_space s)))"

fun int_digits :: "string \<Rightarrow> nat \<Rightarrow> nat option" where
  "int_digits [] acc = Some acc"
| "int_digits [c] acc = (if is_digit c then Some (acc * 10 + digit_val c) else None)"
| "int_digits (c # d # cs) acc =
     (if is_digit c then int_digits (d # cs) (acc * 10 + digit_val c)
      else if c = CHR ''_'' \<and> is_digit d then int_digits (d # cs) acc
      else None)"

definition int_literal :: "string \<Rightarrow> nat option" where
  "int_literal s =
     (case s of [] \<Rightarrow> None
      | c # cs \<Rightarrow> if is_digit c then int_digits (c # cs) 0 else None)"

definition int_of_str :: "string \<Rightarrow> error + int" where
  "int_of_str s =
     (let t = strip s;
          r = (case t of
                 [] \<Rightarrow> None
               | c # cs \<Rightarrow>
                   if c = CHR ''+'' then map_option int (int_literal cs)
                   else if c = CHR ''-'' then map_option (\<lambda>n. - int n) (int_literal cs)
                   else map_option int (int_literal t))
      in case r of None \<Rightarrow> Inl ValueError | Some i \<Rightarrow> Inr i)"

text \<open>\<^verbatim>\<open>int(x)\<close> for a value taken from a dictionary.\<close>

fun py_int :: "pyval \<Rightarrow> error + int" where
  "py_int (PInt i) = Inr i"
| "py_int (PBool b) = Inr (if b then 1 else 0)"
| "py_int (PStr s) = int_of_str s"
| "py_int PNone = Inl TypeError"
| "py_int (PList xs) = Inl TypeError"
| "py_int (PDict kvs) = Inl TypeError"

text \<open>\<^verbatim>\<open>s.lower()\<close> and \<^verbatim>\<open>a in b\<close> on strs.\<close>

definition lower_char :: "char \<Rightarrow> char" where
  "lower_char c =
     (let n = (of_char c :: nat)
      in if (65 \<le> n \<and> n \<le> 90) \<or> (192 \<le> n \<and> n \<le> 214) \<or> (216 \<le> n \<and> n \<le> 222)
         then char_of (n + 32) else c)"

definition lower :: "string \<Rightarrow> string" where
  "lower s = map lower_char s"

fun starts_with :: "string \<Rightarrow> string \<Rightarrow> bool" where
  "starts_with s [] = True"
| "starts_with [] (p # ps) = False"
| "starts_with (c # cs) (p # ps) = (c = p \<and> starts_with cs ps)"

fun str_contains :: "string \<Rightarrow> string \<Rightarrow> bool" where
  "str_contains [] sub = (sub = [])"
| "str_contains (c # cs) sub = (starts_with (c # cs) sub \<or> str_contains cs sub)"

text \<open>\<^verbatim>\<open>sep.join(parts)\<close>.\<close>

fun join :: "string \<Rightarrow> string list \<Rightarrow> string" where
  "join sep [] = []"
| "join sep [p] = p"
| "join sep (p # q # ps) = p @ sep @ join sep (q # ps)"

section \<open>The graph store adapter (\<^verbatim>\<open>graph_db.py\<close>)\<close>

text \<open>
  The Neo4j server is outside the repository. Its state is a list of nodes and a list of
  relationships; \<open>next_id\<close> is the id it gives the next node. \<open>g_up\<close> says whether the
  server can be reached, and \<open>g_faults\<close> is the schedule of the coming \<^verbatim>\<open>session.run\<close>
  calls: \<open>True\<close> means that the call raises (a lost connection, a query the server rejects).
  \<open>driver\<close> is the adapter's own field.
\<close>

record node =
  node_id :: int
  labels :: "string list"
  props :: pydict

record rel =
  start_id :: int
  end_id :: int
  rel_type :: string
  rel_props :: pydict

record GraphDatabase =
  driver :: bool
  g_up :: bool
  g_faults :: "bool list"
  next_id :: int
  nodes :: "node list"
  rels :: "rel list"

type_synonym row = "(string \<times> node) list"

text \<open>One \<^verbatim>\<open>session.run\<close>: does it raise?\<close>

definition session_run :: "GraphDatabase \<Rightarrow> bool \<times> GraphDatabase" where
  "session_run g =
     (case g_faults g of
        [] \<Rightarrow> (\<not> g_up g, g)
      | f # fs \<Rightarrow> (f \<or> \<not> g_up g, g\<lparr>g_faults := fs\<rparr>))"

text \<open>
  \<^verbatim>\<open>connect\<close> stores the driver before it tests the connection, and catches
  \<^verbatim>\<open>ServiceUnavailable\<close> only.
\<close>

definition graph_connect :: "GraphDatabase \<Rightarrow> bool \<times> GraphDatabase" where
  "graph_connect g = (g_up g, g\<lparr>driver := True\<rparr>)"

definition graph_ensure_driver :: "GraphDatabase \<Rightarrow> bool \<times> GraphDatabase" where
  "graph_ensure_driver g = (if driver g then (True, g) else graph_connect g)"

text \<open>\<^verbatim>\<open>':'.join(labels)\<close> raises \<^verbatim>\<open>TypeError\<close> on an item that is not a str.\<close>

fun str_items :: "pyval list \<Rightarrow> error + string list" where
  "str_items [] = Inr []"
| "str_items (PStr s # vs) =
     (case str_items vs of Inl e \<Rightarrow> Inl e | Inr ss \<Rightarrow> Inr (s # ss))"
| "str_items (v # vs) = Inl TypeError"

text \<open>
  \<^verbatim>\<open>create_node(labels, properties)\<close>. The join is outside the \<^verbatim>\<open>try\<close>, the query inside.
  Labels and property names are taken to be valid Cypher identifiers.
\<close>

definition graph_create_node ::
  "pyval list \<Rightarrow> pydict \<Rightarrow> GraphDatabase \<Rightarrow> (error + int option) \<times> GraphDatabase" where
  "graph_create_node lbls properties g0 =
     (let (ok, g1) = graph_ensure_driver g0
      in if \<not> ok then (Inr None, g1)
         else case str_items lbls of
                Inl e \<Rightarrow> (Inl e, g1)
              | Inr ls \<Rightarrow>
                  (let (raised, g2) = session_run g1
                   in if raised then (Inr None, g2)
                      else (Inr (Some (next_id g2)),
                            g2\<lparr>nodes := nodes g2 @
                                  [\<lparr>node_id = next_id g2, labels = ls, props = properties\<rparr>],
                                next_id := next_id g2 + 1\<rparr>)))"

definition has_node :: "GraphDatabase \<Rightarrow> int \<Rightarrow> bool" where
  "has_node g i = list_ex (\<lambda>n. node_id n = i) (nodes g)"

text \<open>
  \<^verbatim>\<open>create_relationship(start_node_id, end_node_id, relationship_type, properties=None)\<close>:
  the \<^verbatim>\<open>MATCH\<close> finds nothing, and \<^verbatim>\<open>result.single()\<close> is \<^verbatim>\<open>None\<close>, when an end point is
  missing.
\<close>

definition graph_create_relationship ::
  "int \<Rightarrow> int \<Rightarrow> string \<Rightarrow> pydict option \<Rightarrow> GraphDatabase \<Rightarrow> bool \<times> GraphDatabase" where
  "graph_create_relationship a b rtype properties g0 =
     (let (ok, g1) = graph_ensure_driver g0
      in if \<not> ok then (False, g1)
         else let (raised, g2) = session_run g1
              in if raised then (False, g2)
                 else if has_node g2 a \<and> has_node g2 b
                 then (True, g2\<lparr>rels := rels g2 @
                         [\<lparr>start_id = a, end_id = b, rel_type = rtype,
                           rel_props = (case properties of None \<Rightarrow> [] | Some p \<Rightarrow> p)\<rparr>]\<rparr>)
                 else (False, g2))"

text \<open>
  The Cypher texts the repository sends through \<^verbatim>\<open>query\<close>, with their parameters:
  \<^item> \<open>Related_entities i\<close>:
    \<^verbatim>\<open>MATCH (f:Fact)-[:MENTIONS]->(e) WHERE id(f) = $id RETURN e\<close>
  \<^item> \<open>Conversation_messages i\<close>:
    \<^verbatim>\<open>MATCH (c:Conversation)-[:CONTAINS]->(m:Message) WHERE id(c) = $id RETURN m ORDER BY m.order\<close>
  \<^item> \<open>Label_scan l k\<close>: \<^verbatim>\<open>MATCH (e:{entity_type}) RETURN e LIMIT {limit}\<close>
  \<^item> \<open>Entity_by_name s\<close>: \<^verbatim>\<open>MATCH (e) WHERE e.name = $name RETURN e\<close>
  \<^item> \<open>Facts_about s\<close>: \<^verbatim>\<open>MATCH (f:Fact)-[:MENTIONS]->(e) WHERE e.name = $name RETURN f\<close>
  \<^item> \<open>Fact_by_id i\<close>: \<^verbatim>\<open>MATCH (f:Fact) WHERE id(f) = $id RETURN f\<close>
  \<^item> \<open>Delete_label l\<close>: \<^verbatim>\<open>MATCH (f:Fact) DETACH DELETE f\<close> and the same for \<^verbatim>\<open>Conversation\<close>
  \<^item> \<open>Delete_all\<close>: \<^verbatim>\<open>MATCH (n) DETACH DELETE n\<close>
\<close>

datatype cypher =
  Related_entities int
  | Conversation_messages int
  | Label_scan string int
  | Entity_by_name string
  | Facts_about string
  | Fact_by_id int
  | Delete_label string
  | Delete_all

definition has_label :: "string \<Rightarrow> node \<Rightarrow> bool" where
  "has_label l n = (l \<in> set (labels n))"

definition nodes_with_id :: "GraphDatabase \<Rightarrow> int \<Rightarrow> node list" where
  "nodes_with_id g i = filter (\<lambda>n. node_id n = i) (nodes g)"

text \<open>The pairs (start node, end node) of the relationships of one type, in creation order.\<close>

definition pattern :: "GraphDatabase \<Rightarrow> string \<Rightarrow> (node \<times> node) list" where
  "pattern g rtype =
     concat (map (\<lambda>r. List.product (nodes_with_id g (start_id r)) (nodes_with_id g (end_id r)))
                 (filter (\<lambda>r. rel_type r = rtype) (rels g)))"

text \<open>\<^verbatim>\<open>ORDER BY m.order\<close>, ascending: nodes without an integer \<^verbatim>\<open>order\<close> come last.\<close>

definition order_of :: "node \<Rightarrow> int option" where
  "order_of n = (case map_of (props n) ''order'' of Some (PInt i) \<Rightarrow> Some i | _ \<Rightarrow> None)"

definition order_by_order :: "node list \<Rightarrow> node list" where
  "order_by_order ns =
     sort_key (\<lambda>n. case order_of n of Some i \<Rightarrow> i | None \<Rightarrow> 0)
        (filter (\<lambda>n. order_of n \<noteq> None) ns)
     @ filter (\<lambda>n. order_of n = None) ns"

text \<open>
  The matches of \<^verbatim>\<open>(c:Conversation)-[:CONTAINS]->(m:Message) WHERE id(c) = $id\<close>, before
  they are ordered.
\<close>

definition contained_messages :: "GraphDatabase \<Rightarrow> int \<Rightarrow> node list" where
  "contained_messages g i =
     map snd
       (filter (\<lambda>(c, m). node_id c = i \<and> has_label ''Conversation'' c \<and> has_label ''Message'' m)
          (pattern g ''CONTAINS''))"

definition detach_delete :: "(node \<Rightarrow> bool) \<Rightarrow> GraphDatabase \<Rightarrow> GraphDatabase" where
  "detach_delete doomed g =
     (let gone = map node_id (filter doomed (nodes g))
      in g\<lparr>nodes := filter (\<lambda>n. \<not> doomed n) (nodes g),
           rels := filter (\<lambda>r. start_id r \<notin> set gone \<and> end_id r \<notin> set gone) (rels g)\<rparr>)"

text \<open>
  Modelled from the spec: the server's evaluation of a query (the graph store's
  ``run an arbitrary structured query'' capability), which is not code of the repository.
  A negative \<^verbatim>\<open>LIMIT\<close> is rejected by the server.
\<close>

fun run_cypher :: "cypher \<Rightarrow> GraphDatabase \<Rightarrow> (row list) option \<times> GraphDatabase" where
  "run_cypher (Related_entities i) g =
     (Some (map (\<lambda>(f, e). [(''e'', e)])
        (filter (\<lambda>(f, e). node_id f = i \<and> has_label ''Fact'' f) (pattern g ''MENTIONS''))), g)"
| "run_cypher (Conversation_messages i) g =
     (Some (map (\<lambda>m. [(''m'', m)]) (order_by_order (contained_messages g i))), g)"
| "run_cypher (Label_scan l k) g =
     (if k < 0 then (None, g)
      else (Some (map (\<lambda>e. [(''e'', e)]) (take (nat k) (filter (has_label l) (nodes g)))), g))"
| "run_cypher (Entity_by_name s) g =
     (Some (map (\<lambda>e. [(''e'', e)])
        (filter (\<lambda>e. map_of (props e) ''name'' = Some (PStr s)) (nodes g))), g)"
| "run_cypher (Facts_about s) g =
     (Some (map (\<lambda>(f, e). [(''f'', f)])
        (filter (\<lambda>(f, e). has_label ''Fact'' f \<and> map_of (props e) ''name'' = Some (PStr s))
           (pattern g ''MENTIONS''))), g)"
| "run_cypher (Fact_by_id i) g =
     (Some (map (\<lambda>f. [(''f'', f)]) (filter (has_label ''Fact'') (nodes_with_id g i))), g)"
| "run_cypher (Delete_label l) g = (Some [], detach_delete (has_label l) g)"
| "run_cypher Delete_all g = (Some [], detach_delete (\<lambda>n. True) g)"

text \<open>\<^verbatim>\<open>query(cypher_query, params)\<close>: any exception of the session gives the empty list.\<close>

definition graph_query :: "cypher \<Rightarrow> GraphDatabase \<Rightarrow> row list \<times> GraphDatabase" where
  "graph_query q g0 =
     (let (ok, g1) = graph_ensure_driver g0
      in if \<not> ok then ([], g1)
         else let (raised, g2) = session_run g1
              in if raised then ([], g2)
                 else case run_cypher q g2 of
                        (None, g3) \<Rightarrow> ([], g3)
                      | (Some rows, g3) \<Rightarrow> (rows, g3))"

section \<open>The vector store adapter (\<^verbatim>\<open>vector_db.py\<close>)\<close>

text \<open>
  The ChromaDB collection is outside the repository: its state is the list of stored
  documents. \<open>v_up\<close> says whether \<^verbatim>\<open>connect\<close> succeeds, \<open>v_faults\<close> is the schedule of the
  coming collection calls (\<open>True\<close>: the call raises), \<open>ranking\<close> is the order in which the
  embedding model returns the candidates of a query text, and \<open>uuid4\<close> with \<open>uuid_next\<close>
  is the supply of generated ids. \<open>client\<close> stands for the adapter's \<^verbatim>\<open>client\<close> and
  \<^verbatim>\<open>collection\<close> fields both being set. The \<^verbatim>\<open>distance\<close> of a hit, a float, is left out.
\<close>

record vdoc =
  doc_text :: string
  doc_metadata :: pydict
  doc_id :: string

datatype cond = Eq pyval | Gt pyval

type_synonym where_clause = "(string \<times> cond) list"

record VectorDatabase =
  client :: bool
  v_up :: bool
  v_faults :: "bool list"
  uuid4 :: "nat \<Rightarrow> string"
  uuid_next :: nat
  ranking :: "string \<Rightarrow> vdoc list \<Rightarrow> vdoc list"
  collection :: "vdoc list"

record memory =
  m_document :: string
  m_metadata :: pydict
  m_id :: string
  m_related_entities :: "row list option"
  m_messages :: "row list option"

definition collection_call :: "VectorDatabase \<Rightarrow> bool \<times> VectorDatabase" where
  "collection_call v =
     (case v_faults v of [] \<Rightarrow> (False, v) | f # fs \<Rightarrow> (f, v\<lparr>v_faults := fs\<rparr>))"

fun cond_holds :: "cond \<Rightarrow> pyval option \<Rightarrow> bool" where
  "cond_holds (Eq v) (Some w) = (w = v)"
| "cond_holds (Gt (PInt a)) (Some (PInt b)) = (a < b)"
| "cond_holds (Gt (PStr a)) (Some (PStr b)) = (a < b)"
| "cond_holds c x = False"

definition matches :: "where_clause option \<Rightarrow> pydict \<Rightarrow> bool" where
  "matches w md =
     (case w of None \<Rightarrow> True
      | Some cs \<Rightarrow> list_all (\<lambda>(k, c). cond_holds c (map_of md k)) cs)"

text \<open>
  Modelled from the spec: the three capabilities of the vector store (``add
  document+metadata+id, similarity-query with optional metadata filter, delete by id or
  filter''), which are not code of the repository. An addition is refused unless every
  document is a str and has an id; a query returns at most \<open>n\<close> of the matching documents, in the
  order of \<open>ranking\<close>.
\<close>

definition collection_add ::
  "pyval list \<Rightarrow> pydict list \<Rightarrow> string option list \<Rightarrow> vdoc list \<Rightarrow> vdoc list option" where
  "collection_add documents metadatas ids docs =
     (case (str_items documents, those ids) of
        (Inr ds, Some is) \<Rightarrow>
          if length metadatas = length ds \<and> length is = length ds
          then Some (docs @ map (\<lambda>(d, md, i). \<lparr>doc_text = d, doc_metadata = md, doc_id = i\<rparr>)
                                (zip ds (zip metadatas is)))
          else None
      | _ \<Rightarrow> None)"

definition collection_query ::
  "string \<Rightarrow> int \<Rightarrow> where_clause option \<Rightarrow> VectorDatabase \<Rightarrow> vdoc list option" where
  "collection_query q n w v =
     (if n \<le> 0 then None
      else Some (take (nat n)
                  (ranking v q (filter (\<lambda>d. matches w (doc_metadata d)) (collection v)))))"

definition collection_delete_ids :: "string list \<Rightarrow> vdoc list \<Rightarrow> vdoc list" where
  "collection_delete_ids ids docs = filter (\<lambda>d. doc_id d \<notin> set ids) docs"

definition collection_delete_where :: "where_clause \<Rightarrow> vdoc list \<Rightarrow> vdoc list" where
  "collection_delete_where w docs = filter (\<lambda>d. \<not> matches (Some w) (doc_metadata d)) docs"

definition vector_connect :: "VectorDatabase \<Rightarrow> bool \<times> VectorDatabase" where
  "vector_connect v = (if v_up v then (True, v\<lparr>client := True\<rparr>) else (False, v))"

definition vector_ensure_client :: "VectorDatabase \<Rightarrow> bool \<times> VectorDatabase" where
  "vector_ensure_client v = (if client v then (True, v) else vector_connect v)"

text \<open>\<^verbatim>\<open>add_documents(documents, metadatas=None, ids=None)\<close>.\<close>

definition vector_add_documents ::
  "pyval list \<Rightarrow> pydict list option \<Rightarrow> string option list option \<Rightarrow> VectorDatabase
     \<Rightarrow> bool \<times> VectorDatabase" where
  "vector_add_documents documents metadatas ids v0 =
     (let (ok, v1) = vector_ensure_client v0
      in if \<not> ok then (False, v1)
         else
           let (ids', v2) =
                 (case ids of
                    Some (i # is) \<Rightarrow> (i # is, v1)
                  | _ \<Rightarrow> (map (\<lambda>k. Some (uuid4 v1 k)) [uuid_next v1 ..< uuid_next v1 + length documents],
                          v1\<lparr>uuid_next := uuid_next v1 + length documents\<rparr>));
               metadatas' =
                 (case metadatas of
                    Some (md # mds) \<Rightarrow> md # mds
                  | _ \<Rightarrow> replicate (length documents) []);
               (raised, v3) = collection_call v2
           in if raised then (False, v3)
              else case collection_add documents metadatas' ids' (collection v3) of
                     None \<Rightarrow> (False, v3)
                   | Some docs \<Rightarrow> (True, v3\<lparr>collection := docs\<rparr>))"

text \<open>\<^verbatim>\<open>query(query_text, n_results=5, filter_metadata=None)\<close>.\<close>

definition vector_query ::
  "string \<Rightarrow> int \<Rightarrow> where_clause option \<Rightarrow> VectorDatabase \<Rightarrow> memory list \<times> VectorDatabase" where
  "vector_query query_text n_results filter_metadata v0 =
     (let (ok, v1) = vector_ensure_client v0
      in if \<not> ok then ([], v1)
         else
           let (raised, v2) = collection_call v1
           in if raised then ([], v2)
              else case collection_query query_text n_results filter_metadata v2 of
                     None \<Rightarrow> ([], v2)
                   | Some ds \<Rightarrow>
                       (map (\<lambda>d. \<lparr>m_document = doc_text d, m_metadata = doc_metadata d,
                                   m_id = doc_id d, m_related_entities = None,
                                   m_messages = None\<rparr>) ds, v2))"

text \<open>\<^verbatim>\<open>delete(ids=None, filter_metadata=None)\<close>.\<close>

definition vector_delete ::
  "string list option \<Rightarrow> where_clause option \<Rightarrow> VectorDatabase \<Rightarrow> bool \<times> VectorDatabase" where
  "vector_delete ids filter_metadata v0 =
     (let (ok, v1) = vector_ensure_client v0
      in if \<not> ok then (False, v1)
         else case ids of
                Some (i # is) \<Rightarrow>
                  (let (raised, v2) = collection_call v1
                   in if raised then (False, v2)
                      else (True, v2\<lparr>collection := collection_delete_ids (i # is) (collection v2)\<rparr>))
              | _ \<Rightarrow>
                  (case filter_metadata of
                     Some (c # cs) \<Rightarrow>
                       (let (raised, v2) = collection_call v1
                        in if raised then (False, v2)
                           else (True, v2\<lparr>collection :=
                                   collection_delete_where (c # cs) (collection v2)\<rparr>))
                   | _ \<Rightarrow> (False, v1)))"

subsection \<open>Calls with keyword arguments\<close>

text \<open>
  The memory layer calls the adapter's methods with keyword arguments. Python binds the
  positional arguments to the parameters in order, then each keyword to the parameter of
  that name, and raises \<^verbatim>\<open>TypeError\<close> for a keyword that names no parameter, for a parameter
  given twice, for too many positional arguments and for a missing parameter that has no
  default. The binding happens before the body of the method, so outside its \<^verbatim>\<open>try\<close>.
\<close>

datatype pyarg =
  AVal pyval
  | AWhere where_clause
  | ADocs "pyval list"
  | AStrs "string list"
  | AMetas "pydict list"
  | AIds "string option list"

fun bind_positional :: "string list \<Rightarrow> pyarg list \<Rightarrow> error + (string \<times> pyarg) list" where
  "bind_positional ps [] = Inr []"
| "bind_positional [] (a # as) = Inl TypeError"
| "bind_positional (p # ps) (a # as) =
     (case bind_positional ps as of Inl e \<Rightarrow> Inl e | Inr b \<Rightarrow> Inr ((p, a) # b))"

fun bind_keywords ::
  "string list \<Rightarrow> (string \<times> pyarg) list \<Rightarrow> (string \<times> pyarg) list
     \<Rightarrow> error + (string \<times> pyarg) list" where
  "bind_keywords ps bound [] = Inr bound"
| "bind_keywords ps bound ((k, a) # kws) =
     (if k \<in> set ps \<and> map_of bound k = None then bind_keywords ps (bound @ [(k, a)]) kws
      else Inl TypeError)"

definition bind_args ::
  "string list \<Rightarrow> pyarg list \<Rightarrow> (string \<times> pyarg) list \<Rightarrow> error + (string \<times> pyarg) list" where
  "bind_args ps pos kws =
     (case bind_positional ps pos of Inl e \<Rightarrow> Inl e | Inr b \<Rightarrow> bind_keywords ps b kws)"

text \<open>
  The bound arguments as the parameters' annotated types. An argument of another type is
  outside the embedding (no call of the repository passes one); the call is given
  \<^verbatim>\<open>TypeError\<close> there.
\<close>

fun arg_str :: "pyarg \<Rightarrow> string option" where
  "arg_str (AVal (PStr s)) = Some s"
| "arg_str a = None"

fun arg_int :: "pyarg \<Rightarrow> int option" where
  "arg_int (AVal (PInt n)) = Some n"
| "arg_int a = None"

fun arg_where :: "pyarg \<Rightarrow> where_clause option option" where
  "arg_where (AWhere w) = Some (Some w)"
| "arg_where (AVal PNone) = Some None"
| "arg_where a = None"

fun arg_docs :: "pyarg \<Rightarrow> pyval list option" where
  "arg_docs (ADocs ds) = Some ds"
| "arg_docs a = None"

fun arg_metas :: "pyarg \<Rightarrow> pydict list option option" where
  "arg_metas (AMetas ms) = Some (Some ms)"
| "arg_metas (AVal PNone) = Some None"
| "arg_metas a = None"

fun arg_ids :: "pyarg \<Rightarrow> string option list option option" where
  "arg_ids (AIds is) = Some (Some is)"
| "arg_ids (AVal PNone) = Some None"
| "arg_ids a = None"

fun arg_id_list :: "pyarg \<Rightarrow> string list option option" where
  "arg_id_list (AStrs is) = Some (Some is)"
| "arg_id_list (AVal PNone) = Some None"
| "arg_id_list a = None"

definition call_add_documents ::
  "pyarg list \<Rightarrow> (string \<times> pyarg) list \<Rightarrow> VectorDatabase \<Rightarrow> (error + bool) \<times> VectorDatabase" where
  "call_add_documents pos kws v =
     (case bind_args [''documents'', ''metadatas'', ''ids''] pos kws of
        Inl e \<Rightarrow> (Inl e, v)
      | Inr b \<Rightarrow>
          (case map_of b ''documents'' of
             None \<Rightarrow> (Inl TypeError, v)
           | Some a \<Rightarrow>
               (case (arg_docs a, arg_metas (dict_get b ''metadatas'' (AVal PNone)),
                      arg_ids (dict_get b ''ids'' (AVal PNone))) of
                  (Some ds, Some ms, Some is) \<Rightarrow>
                    (let (r, v') = vector_add_documents ds ms is v in (Inr r, v'))
                | _ \<Rightarrow> (Inl TypeError, v))))"

definition call_query ::
  "pyarg list \<Rightarrow> (string \<times> pyarg) list \<Rightarrow> VectorDatabase
     \<Rightarrow> (error + memory list) \<times> VectorDatabase" where
  "call_query pos kws v =
     (case bind_args [''query_text'', ''n_results'', ''filter_metadata''] pos kws of
        Inl e \<Rightarrow> (Inl e, v)
      | Inr b \<Rightarrow>
          (case map_of b ''query_text'' of
             None \<Rightarrow> (Inl TypeError, v)
           | Some a \<Rightarrow>
               (case (arg_str a, arg_int (dict_get b ''n_results'' (AVal (PInt 5))),
                      arg_where (dict_get b ''filter_metadata'' (AVal PNone))) of
                  (Some q, Some n, Some w) \<Rightarrow>
                    (let (r, v') = vector_query q n w v in (Inr r, v'))
                | _ \<Rightarrow> (Inl TypeError, v))))"

definition call_delete ::
  "pyarg list \<Rightarrow> (string \<times> pyarg) list \<Rightarrow> VectorDatabase \<Rightarrow> (error + bool) \<times> VectorDatabase" where
  "call_delete pos kws v =
     (case bind_args [''ids'', ''filter_metadata''] pos kws of
        Inl e \<Rightarrow> (Inl e, v)
      | Inr b \<Rightarrow>
          (case (arg_id_list (dict_get b ''ids'' (AVal PNone)),
                 arg_where (dict_get b ''filter_metadata'' (AVal PNone))) of
             (Some is, Some w) \<Rightarrow> (let (r, v') = vector_delete is w v in (Inr r, v'))
           | _ \<Rightarrow> (Inl TypeError, v)))"

section \<open>The memory manager (\<^verbatim>\<open>memory.py\<close>)\<close>

text \<open>
  Besides the two adapters and the \<^verbatim>\<open>initialized\<close> flag, the state holds the runtime the
  manager runs in: \<open>clock k\<close> is the \<open>k\<close>-th reading of \<^verbatim>\<open>datetime.datetime.now()\<close>, in
  microseconds since \<^verbatim>\<open>datetime.min\<close>, \<open>ticks\<close> counts the readings taken, and
  \<open>isoformat\<close>, \<open>json_dumps\<close> and \<open>json_loads\<close> are the library functions of these names
  (\<open>json_loads\<close> gives \<open>None\<close> where \<^verbatim>\<open>json.loads\<close> raises \<^verbatim>\<open>JSONDecodeError\<close>).
\<close>

record MemoryManager =
  graph_db :: GraphDatabase
  vector_db :: VectorDatabase
  initialized :: bool
  clock :: "nat \<Rightarrow> int"
  ticks :: nat
  isoformat :: "int \<Rightarrow> string"
  json_dumps :: "pyval \<Rightarrow> string"
  json_loads :: "string \<Rightarrow> pyval option"

definition now :: "MemoryManager \<Rightarrow> int \<times> MemoryManager" where
  "now m = (clock m (ticks m), m\<lparr>ticks := Suc (ticks m)\<rparr>)"

definition now_iso :: "MemoryManager \<Rightarrow> string \<times> MemoryManager" where
  "now_iso m = (let (t, m') = now m in (isoformat m' t, m'))"

definition initialize :: "MemoryManager \<Rightarrow> bool \<times> MemoryManager" where
  "initialize m =
     (let (graph_connected, g) = graph_connect (graph_db m);
          (vector_connected, v) = vector_connect (vector_db m)
      in (graph_connected \<and> vector_connected,
          m\<lparr>graph_db := g, vector_db := v,
            initialized := (graph_connected \<and> vector_connected)\<rparr>))"

text \<open>\<^verbatim>\<open>if not self.initialized and not self.initialize(): return ...\<close>\<close>

definition ensure_initialized :: "MemoryManager \<Rightarrow> bool \<times> MemoryManager" where
  "ensure_initialized m = (if initialized m then (True, m) else initialize m)"

text \<open>\<^verbatim>\<open>source or "agent"\<close> and \<^verbatim>\<open>context or ""\<close>.\<close>

definition source_or_agent :: "string option \<Rightarrow> string" where
  "source_or_agent source = (case source of Some (c # cs) \<Rightarrow> c # cs | _ \<Rightarrow> ''agent'')"

definition context_or_empty :: "string option \<Rightarrow> string" where
  "context_or_empty context = (case context of Some s \<Rightarrow> s | None \<Rightarrow> [])"

text \<open>
  The loop of \<^verbatim>\<open>store_fact\<close> over the related entities (lines 70--78). \<^verbatim>\<open>entity.get\<close>
  raises \<^verbatim>\<open>AttributeError\<close> on a value that is not a dict.
\<close>

fun link_entities :: "int \<Rightarrow> pyval list \<Rightarrow> MemoryManager \<Rightarrow> error option \<times> MemoryManager" where
  "link_entities fact_node_id [] m = (None, m)"
| "link_entities fact_node_id (PDict entity # rest) m =
     (case graph_create_node [dict_get entity ''type'' (PStr ''Entity'')]
             [(''name'', dict_get entity ''name'' PNone),
              (''properties'', PStr (json_dumps m (dict_get entity ''properties'' (PDict []))))]
             (graph_db m) of
        (Inl e, g) \<Rightarrow> (Some e, m\<lparr>graph_db := g\<rparr>)
      | (Inr entity_node_id, g) \<Rightarrow>
          (case truthy_id entity_node_id of
             None \<Rightarrow> link_entities fact_node_id rest (m\<lparr>graph_db := g\<rparr>)
           | Some eid \<Rightarrow>
               (let (created, g') = graph_create_relationship fact_node_id eid ''MENTIONS'' None g
                in link_entities fact_node_id rest (m\<lparr>graph_db := g'\<rparr>))))"
| "link_entities fact_node_id (v # rest) m = (Some AttributeError, m)"

text \<open>The metadata and the id of the vector document that mirrors a fact (lines 83--89).\<close>

definition fact_metadata :: "string option \<Rightarrow> string \<Rightarrow> int option \<Rightarrow> pydict" where
  "fact_metadata source timestamp fact_node_id =
     [(''type'', PStr ''fact''),
      (''source'', PStr (source_or_agent source)),
      (''timestamp'', PStr timestamp),
      (''graph_id'', case truthy_id fact_node_id of
                       Some i \<Rightarrow> PStr (str_int i) | None \<Rightarrow> PNone)]"

definition fact_doc_id :: "int option \<Rightarrow> string option" where
  "fact_doc_id fact_node_id =
     (case truthy_id fact_node_id of Some i \<Rightarrow> Some (''fact_'' @ str_int i) | None \<Rightarrow> None)"

definition store_fact ::
  "pyval \<Rightarrow> string option \<Rightarrow> pyval list option \<Rightarrow> MemoryManager
     \<Rightarrow> (error + int option) \<times> MemoryManager" where
  "store_fact fact_text source related_entities m0 =
     (let (ok, m1) = ensure_initialized m0
      in if \<not> ok then (Inr None, m1)
         else
           let (t1, m2) = now_iso m1;
               properties = [(''content'', fact_text), (''timestamp'', PStr t1),
                             (''source'', PStr (source_or_agent source))]
           in case graph_create_node [PStr ''Fact''] properties (graph_db m2) of
                (Inl e, g) \<Rightarrow> (Inl e, m2\<lparr>graph_db := g\<rparr>)
              | (Inr fact_node_id, g) \<Rightarrow>
                  (let m3 = m2\<lparr>graph_db := g\<rparr>;
                       (raised, m4) =
                         (case (related_entities, truthy_id fact_node_id) of
                            (Some (e # es), Some fid) \<Rightarrow> link_entities fid (e # es) m3
                          | _ \<Rightarrow> (None, m3))
                   in case raised of
                        Some e \<Rightarrow> (Inl e, m4)
                      | None \<Rightarrow>
                          (let (t2, m5) = now_iso m4
                           in case call_add_documents []
                                     [(''documents'', ADocs [fact_text]),
                                      (''metadatas'', AMetas [fact_metadata source t2 fact_node_id]),
                                      (''ids'', AIds [fact_doc_id fact_node_id])]
                                     (vector_db m5) of
                                (Inl e, v) \<Rightarrow> (Inl e, m5\<lparr>vector_db := v\<rparr>)
                              | (Inr added, v) \<Rightarrow> (Inr fact_node_id, m5\<lparr>vector_db := v\<rparr>))))"

text \<open>
  The loop of \<^verbatim>\<open>store_conversation\<close> over \<^verbatim>\<open>enumerate(messages)\<close> (lines 120--133). A
  message is a \<^verbatim>\<open>Dict[str, str]\<close>. The default of \<^verbatim>\<open>message.get("timestamp", ...)\<close> reads the
  clock whether or not the key is there.
\<close>

type_synonym message = "(string \<times> string) list"

definition message_properties :: "message \<Rightarrow> string \<Rightarrow> nat \<Rightarrow> pydict" where
  "message_properties message t i =
     [(''role'', PStr (dict_get message ''role'' ''unknown'')),
      (''content'', PStr (dict_get message ''content'' [])),
      (''timestamp'', PStr (dict_get message ''timestamp'' t)),
      (''order'', PInt (int i))]"

fun store_messages ::
  "int option \<Rightarrow> nat \<Rightarrow> message list \<Rightarrow> MemoryManager \<Rightarrow> error option \<times> MemoryManager" where
  "store_messages conversation_node_id i [] m = (None, m)"
| "store_messages conversation_node_id i (message # rest) m =
     (let (t, m1) = now_iso m
      in case graph_create_node [PStr ''Message''] (message_properties message t i)
                (graph_db m1) of
           (Inl e, g) \<Rightarrow> (Some e, m1\<lparr>graph_db := g\<rparr>)
         | (Inr message_node_id, g) \<Rightarrow>
             (case (truthy_id message_node_id, truthy_id conversation_node_id) of
                (Some mid, Some cid) \<Rightarrow>
                  (let (created, g') = graph_create_relationship cid mid ''CONTAINS'' None g
                   in store_messages conversation_node_id (Suc i) rest (m1\<lparr>graph_db := g'\<rparr>))
              | _ \<Rightarrow> store_messages conversation_node_id (Suc i) rest (m1\<lparr>graph_db := g\<rparr>)))"

definition conversation_text :: "message list \<Rightarrow> string" where
  "conversation_text messages =
     join [CHR 0x0A]
       (map (\<lambda>m. dict_get m ''role'' ''unknown'' @ '': '' @ dict_get m ''content'' []) messages)"

definition conversation_metadata ::
  "string \<Rightarrow> string option \<Rightarrow> int option \<Rightarrow> pydict \<Rightarrow> pydict" where
  "conversation_metadata timestamp context conversation_node_id metadata =
     dict_merge
       [(''type'', PStr ''conversation''),
        (''timestamp'', PStr timestamp),
        (''context'', PStr (context_or_empty context)),
        (''graph_id'', case truthy_id conversation_node_id of
                         Some i \<Rightarrow> PStr (str_int i) | None \<Rightarrow> PNone)]
       metadata"

definition store_conversation ::
  "message list \<Rightarrow> string option \<Rightarrow> pydict option \<Rightarrow> MemoryManager
     \<Rightarrow> (error + bool) \<times> MemoryManager" where
  "store_conversation messages context metadata0 m0 =
     (let (ok, m1) = ensure_initialized m0
      in if \<not> ok then (Inr False, m1)
         else
           let metadata = (case metadata0 of Some md \<Rightarrow> md | None \<Rightarrow> []);
               (t1, m2) = now_iso m1;
               properties =
                 dict_merge [(''timestamp'', PStr t1),
                             (''context'', PStr (context_or_empty context))] metadata
           in case graph_create_node [PStr ''Conversation''] properties (graph_db m2) of
                (Inl e, g) \<Rightarrow> (Inl e, m2\<lparr>graph_db := g\<rparr>)
              | (Inr conversation_node_id, g) \<Rightarrow>
                  (case store_messages conversation_node_id 0 messages (m2\<lparr>graph_db := g\<rparr>) of
                     (Some e, m3) \<Rightarrow> (Inl e, m3)
                   | (None, m3) \<Rightarrow>
                       (let (t2, m4) = now_iso m3
                        in case call_add_documents []
                                  [(''documents'', ADocs [PStr (conversation_text messages)]),
                                   (''metadatas'',
                                      AMetas [conversation_metadata t2 context
                                                conversation_node_id metadata]),
                                   (''ids'',
                                      AIds [case truthy_id conversation_node_id of
                                              Some i \<Rightarrow> Some (''conversation_'' @ str_int i)
                                            | None \<Rightarrow> None])]
                                  (vector_db m4) of
                             (Inl e, v) \<Rightarrow> (Inl e, m4\<lparr>vector_db := v\<rparr>)
                           | (Inr added, v) \<Rightarrow> (Inr True, m4\<lparr>vector_db := v\<rparr>))))"

text \<open>
  The enrichment loop of \<^verbatim>\<open>retrieve_relevant_memories\<close> (lines 171--190). \<^verbatim>\<open>int(graph_id)\<close>
  is outside every \<^verbatim>\<open>try\<close>.
\<close>

fun enhance :: "memory list \<Rightarrow> MemoryManager \<Rightarrow> (error + memory list) \<times> MemoryManager" where
  "enhance [] m = (Inr [], m)"
| "enhance (result # rest) m =
     (let graph_id = dict_get (m_metadata result) ''graph_id'' PNone;
          mtype = dict_get (m_metadata result) ''type'' PNone;
          (r, m1) =
            (if truthy graph_id then
               (if mtype = PStr ''fact'' then
                  (case py_int graph_id of
                     Inl e \<Rightarrow> (Inl e, m)
                   | Inr i \<Rightarrow>
                       (let (related, g) = graph_query (Related_entities i) (graph_db m)
                        in (Inr (result\<lparr>m_related_entities := Some related\<rparr>),
                            m\<lparr>graph_db := g\<rparr>)))
                else if mtype = PStr ''conversation'' then
                  (case py_int graph_id of
                     Inl e \<Rightarrow> (Inl e, m)
                   | Inr i \<Rightarrow>
                       (let (msgs, g) = graph_query (Conversation_messages i) (graph_db m)
                        in (Inr (result\<lparr>m_messages := Some msgs\<rparr>), m\<lparr>graph_db := g\<rparr>)))
                else (Inr result, m))
             else (Inr result, m))
      in case r of
           Inl e \<Rightarrow> (Inl e, m1)
         | Inr result' \<Rightarrow>
             (case enhance rest m1 of
                (Inl e, m2) \<Rightarrow> (Inl e, m2)
              | (Inr enhanced, m2) \<Rightarrow> (Inr (result' # enhanced), m2)))"

definition retrieve_relevant_memories ::
  "string \<Rightarrow> int \<Rightarrow> MemoryManager \<Rightarrow> (error + memory list) \<times> MemoryManager" where
  "retrieve_relevant_memories query limit m0 =
     (let (ok, m1) = ensure_initialized m0
      in if \<not> ok then (Inr [], m1)
         else case call_query [AVal (PStr query)] [(''n_results'', AVal (PInt limit))]
                     (vector_db m1) of
                (Inl e, v) \<Rightarrow> (Inl e, m1\<lparr>vector_db := v\<rparr>)
              | (Inr results, v) \<Rightarrow> enhance results (m1\<lparr>vector_db := v\<rparr>))"

record categorized =
  facts :: "memory list"
  conversations :: "memory list"

fun categorize_loop :: "memory list \<Rightarrow> categorized \<Rightarrow> categorized" where
  "categorize_loop [] c = c"
| "categorize_loop (mem # rest) c =
     (let memory_type = dict_get (m_metadata mem) ''type'' PNone
      in if memory_type = PStr ''fact'' then categorize_loop rest (c\<lparr>facts := facts c @ [mem]\<rparr>)
         else if memory_type = PStr ''conversation''
         then categorize_loop rest (c\<lparr>conversations := conversations c @ [mem]\<rparr>)
         else categorize_loop rest c)"

definition categorize_memories ::
  "string \<Rightarrow> MemoryManager \<Rightarrow> (error + categorized) \<times> MemoryManager" where
  "categorize_memories query m0 =
     (let (ok, m1) = ensure_initialized m0
      in if \<not> ok then (Inr \<lparr>facts = [], conversations = []\<rparr>, m1)
         else case retrieve_relevant_memories query 10 m1 of
                (Inl e, m2) \<Rightarrow> (Inl e, m2)
              | (Inr memories, m2) \<Rightarrow>
                  (Inr (categorize_loop memories \<lparr>facts = [], conversations = []\<rparr>), m2))"

record entity_information =
  entity :: "node option"
  related_facts :: "node list"

text \<open>\<^verbatim>\<open>[record[k] for record in rows]\<close> and \<^verbatim>\<open>rows[0][k]\<close>.\<close>

fun column :: "string \<Rightarrow> row list \<Rightarrow> error + node list" where
  "column k [] = Inr []"
| "column k (r # rs) =
     (case map_of r k of
        None \<Rightarrow> Inl KeyError
      | Some n \<Rightarrow> (case column k rs of Inl e \<Rightarrow> Inl e | Inr ns \<Rightarrow> Inr (n # ns)))"

definition get_entity_information ::
  "string \<Rightarrow> MemoryManager \<Rightarrow> (error + entity_information) \<times> MemoryManager" where
  "get_entity_information entity_name m0 =
     (let (ok, m1) = ensure_initialized m0
      in if \<not> ok then (Inr \<lparr>entity = None, related_facts = []\<rparr>, m1)
         else
           let (entity_result, g1) = graph_query (Entity_by_name entity_name) (graph_db m1);
               m2 = m1\<lparr>graph_db := g1\<rparr>
           in case entity_result of
                [] \<Rightarrow> (Inr \<lparr>entity = None, related_facts = []\<rparr>, m2)
              | r # rs \<Rightarrow>
                  (case map_of r ''e'' of
                     None \<Rightarrow> (Inl KeyError, m2)
                   | Some e \<Rightarrow>
                       (let (facts_result, g2) = graph_query (Facts_about entity_name) (graph_db m2);
                            m3 = m2\<lparr>graph_db := g2\<rparr>
                        in case column ''f'' facts_result of
                             Inl err \<Rightarrow> (Inl err, m3)
                           | Inr fs \<Rightarrow> (Inr \<lparr>entity = Some e, related_facts = fs\<rparr>, m3))))"

text \<open>
  \<^verbatim>\<open>clear_memory(memory_type=None)\<close>. Both deletions are inside one \<^verbatim>\<open>try\<close> whose handler
  returns \<^verbatim>\<open>False\<close>.
\<close>

definition clear_memory :: "string option \<Rightarrow> MemoryManager \<Rightarrow> bool \<times> MemoryManager" where
  "clear_memory memory_type m0 =
     (let (ok, m1) = ensure_initialized m0
      in if \<not> ok then (False, m1)
         else
           case (case memory_type of
                   Some (c # cs) \<Rightarrow>
                     call_delete [] [(''where'', AWhere [(''type'', Eq (PStr (c # cs)))])]
                       (vector_db m1)
                 | _ \<Rightarrow> call_delete [] [(''where'', AWhere [])] (vector_db m1)) of
             (Inl e, v) \<Rightarrow> (False, m1\<lparr>vector_db := v\<rparr>)
           | (Inr deleted, v) \<Rightarrow>
               (let m2 = m1\<lparr>vector_db := v\<rparr>
                in if memory_type = Some ''fact''
                   then (let (rows, g) = graph_query (Delete_label ''Fact'') (graph_db m2)
                         in (True, m2\<lparr>graph_db := g\<rparr>))
                   else if memory_type = Some ''conversation''
                   then (let (rows, g) = graph_query (Delete_label ''Conversation'') (graph_db m2)
                         in (True, m2\<lparr>graph_db := g\<rparr>))
                   else if memory_type = None
                   then (let (rows, g) = graph_query Delete_all (graph_db m2)
                         in (True, m2\<lparr>graph_db := g\<rparr>))
                   else (True, m2)))"

section \<open>The additional retrieval methods (\<^verbatim>\<open>memory_retrieval.py\<close>)\<close>

text \<open>
  The methods of \<^verbatim>\<open>MemoryManager\<close> with these names pass their arguments on to the static
  methods of \<^verbatim>\<open>MemoryRetrieval\<close>, which are embedded here.
\<close>

definition retrieve_by_entity_type ::
  "string \<Rightarrow> int \<Rightarrow> MemoryManager \<Rightarrow> row list \<times> MemoryManager" where
  "retrieve_by_entity_type entity_type limit m0 =
     (let (ok, m1) = ensure_initialized m0
      in if \<not> ok then ([], m1)
         else let (rows, g) = graph_query (Label_scan entity_type limit) (graph_db m1)
              in (rows, m1\<lparr>graph_db := g\<rparr>))"

text \<open>
  \<^verbatim>\<open>(datetime.datetime.now() - datetime.timedelta(days=days)).isoformat()\<close>: a \<^verbatim>\<open>timedelta\<close>
  holds at most 999999999 days, and a \<^verbatim>\<open>datetime\<close> lies between \<^verbatim>\<open>datetime.min\<close> and
  \<^verbatim>\<open>datetime.max\<close>; \<^verbatim>\<open>OverflowError\<close> otherwise.
\<close>

definition max_instant :: int where
  "max_instant = 315537897599999999"

definition threshold_date :: "int \<Rightarrow> MemoryManager \<Rightarrow> (error + string) \<times> MemoryManager" where
  "threshold_date days m =
     (let (t, m1) = now m
      in if days < - 999999999 \<or> 999999999 < days then (Inl OverflowError, m1)
         else let d = t - days * 86400000000
              in if d < 0 \<or> max_instant < d then (Inl OverflowError, m1)
                 else (Inr (isoformat m1 d), m1))"

definition retrieve_recent_memories ::
  "string option \<Rightarrow> int \<Rightarrow> int \<Rightarrow> MemoryManager \<Rightarrow> (error + memory list) \<times> MemoryManager" where
  "retrieve_recent_memories memory_type days limit m0 =
     (let (ok, m1) = ensure_initialized m0
      in if \<not> ok then (Inr [], m1)
         else case threshold_date days m1 of
                (Inl e, m2) \<Rightarrow> (Inl e, m2)
              | (Inr threshold, m2) \<Rightarrow>
                  (let where_clause0 = [(''timestamp'', Gt (PStr threshold))];
                       where_clause =
                         (case memory_type of
                            Some (c # cs) \<Rightarrow> AList.update ''type'' (Eq (PStr (c # cs))) where_clause0
                          | _ \<Rightarrow> where_clause0)
                   in case call_query []
                             [(''query'', AVal (PStr [])),
                              (''where'', AWhere where_clause),
                              (''n_results'', AVal (PInt limit))]
                             (vector_db m2) of
                        (r, v) \<Rightarrow> (r, m2\<lparr>vector_db := v\<rparr>)))"

definition retrieve_memories_by_source ::
  "string \<Rightarrow> int \<Rightarrow> MemoryManager \<Rightarrow> (error + memory list) \<times> MemoryManager" where
  "retrieve_memories_by_source source limit m0 =
     (let (ok, m1) = ensure_initialized m0
      in if \<not> ok then (Inr [], m1)
         else case call_query []
                     [(''query'', AVal (PStr [])),
                      (''where'', AWhere [(''source'', Eq (PStr source))]),
                      (''n_results'', AVal (PInt limit))]
                     (vector_db m1) of
                (r, v) \<Rightarrow> (r, m1\<lparr>vector_db := v\<rparr>))"

text \<open>\<^verbatim>\<open>fact_id: Union[str, int]\<close>.\<close>

datatype fact_ref = Id_str string | Id_int int

definition retrieve_related_facts ::
  "fact_ref \<Rightarrow> int \<Rightarrow> MemoryManager \<Rightarrow> (error + memory list) \<times> MemoryManager" where
  "retrieve_related_facts fact_id limit m0 =
     (let (ok, m1) = ensure_initialized m0
      in if \<not> ok then (Inr [], m1)
         else case (case fact_id of Id_str s \<Rightarrow> int_of_str s | Id_int i \<Rightarrow> Inr i) of
                Inl e \<Rightarrow> (Inl e, m1)
              | Inr i \<Rightarrow>
                  (let (fact_node, g) = graph_query (Fact_by_id i) (graph_db m1);
                       m2 = m1\<lparr>graph_db := g\<rparr>
                   in case fact_node of
                        [] \<Rightarrow> (Inr [], m2)
                      | r # rs \<Rightarrow>
                          (case map_of r ''f'' of
                             None \<Rightarrow> (Inl KeyError, m2)
                           | Some f \<Rightarrow>
                               (let fact_content = dict_get (props f) ''content'' (PStr [])
                                in case call_query []
                                          [(''query'', AVal fact_content),
                                           (''where'', AWhere [(''type'', Eq (PStr ''fact''))]),
                                           (''n_results'', AVal (PInt (limit + 1)))]
                                          (vector_db m2) of
                                     (Inl e, v) \<Rightarrow> (Inl e, m2\<lparr>vector_db := v\<rparr>)
                                   | (Inr results, v) \<Rightarrow>
                                       (Inr (drop 1 results), m2\<lparr>vector_db := v\<rparr>)))))"

section \<open>The extraction stage of the knowledge agent (\<^verbatim>\<open>knowledge_agent.py\<close>, lines 74--100)\<close>

text \<open>Iteration, subscription by a str key and \<^verbatim>\<open>.lower()\<close> on a decoded JSON value.\<close>

fun py_iter :: "pyval \<Rightarrow> error + pyval list" where
  "py_iter (PList xs) = Inr xs"
| "py_iter (PDict kvs) = Inr (map (\<lambda>(k, v). PStr k) kvs)"
| "py_iter (PStr s) = Inr (map (\<lambda>c. PStr [c]) s)"
| "py_iter v = Inl TypeError"

fun py_getitem :: "pyval \<Rightarrow> string \<Rightarrow> error + pyval" where
  "py_getitem (PDict kvs) k = (case map_of kvs k of None \<Rightarrow> Inl KeyError | Some v \<Rightarrow> Inr v)"
| "py_getitem v k = Inl TypeError"

fun py_lower :: "pyval \<Rightarrow> error + string" where
  "py_lower (PStr s) = Inr (lower s)"
| "py_lower v = Inl AttributeError"

text \<open>
  The inner loop (lines 90--92): the entities whose lowercased name occurs in the
  lowercased content of the fact, in order.
\<close>

fun related_loop :: "pyval list \<Rightarrow> pyval \<Rightarrow> pyval list \<Rightarrow> error + pyval list" where
  "related_loop [] fct related = Inr related"
| "related_loop (ent # rest) fct related =
     (case py_getitem ent ''name'' of
        Inl e \<Rightarrow> Inl e
      | Inr name \<Rightarrow>
          (case py_lower name of
             Inl e \<Rightarrow> Inl e
           | Inr n \<Rightarrow>
               (case py_getitem fct ''content'' of
                  Inl e \<Rightarrow> Inl e
                | Inr content \<Rightarrow>
                    (case py_lower content of
                       Inl e \<Rightarrow> Inl e
                     | Inr c \<Rightarrow>
                         related_loop rest fct
                           (if str_contains c n then related @ [ent] else related)))))"

text \<open>The outer loop (lines 87--98); an exception ends it.\<close>

fun store_facts :: "pyval list \<Rightarrow> pyval \<Rightarrow> MemoryManager \<Rightarrow> error option \<times> MemoryManager" where
  "store_facts [] entities m = (None, m)"
| "store_facts (fct # rest) entities m =
     (case py_iter entities of
        Inl e \<Rightarrow> (Some e, m)
      | Inr ents \<Rightarrow>
          (case related_loop ents fct [] of
             Inl e \<Rightarrow> (Some e, m)
           | Inr related_entities \<Rightarrow>
               (case py_getitem fct ''content'' of
                  Inl e \<Rightarrow> (Some e, m)
                | Inr content \<Rightarrow>
                    (case store_fact content (Some ''conversation'') (Some related_entities) m of
                       (Inl e, m') \<Rightarrow> (Some e, m')
                     | (Inr fact_node_id, m') \<Rightarrow> store_facts rest entities m'))))"

text \<open>
  Lines 74--100, from the two responses of the language model: the entities the later
  code goes on with, and the state of the memory manager. Both handlers print the
  exception and go on.
\<close>

definition parse_entities :: "string \<Rightarrow> MemoryManager \<Rightarrow> pyval" where
  "parse_entities entity_response m =
     (case json_loads m entity_response of None \<Rightarrow> PList [] | Some extracted \<Rightarrow> extracted)"

definition parse_and_store_facts ::
  "string \<Rightarrow> pyval \<Rightarrow> MemoryManager \<Rightarrow> error option \<times> MemoryManager" where
  "parse_and_store_facts fact_response entities m =
     (case json_loads m fact_response of
        None \<Rightarrow> (Some JSONDecodeError, m)
      | Some fcts \<Rightarrow>
          (case py_iter fcts of
             Inl e \<Rightarrow> (Some e, m)
           | Inr fs \<Rightarrow> store_facts fs entities m))"

definition extract_and_store ::
  "string \<Rightarrow> string \<Rightarrow> MemoryManager \<Rightarrow> (error + pyval) \<times> MemoryManager" where
  "extract_and_store entity_response fact_response m =
     (let entities = parse_entities entity_response m
      in case parse_and_store_facts fact_response entities m of
           (Some e, m') \<Rightarrow> (Inr entities, m')
         | (None, m') \<Rightarrow> (Inr entities, m'))"

text \<open>
  The vocabulary of the linking rule: the name of an entity that is a dict with a str
  under \<^verbatim>\<open>"name"\<close>, and whether that name, lowercased, occurs in the lowercased content.
\<close>

fun entity_name :: "pyval \<Rightarrow> string option" where
  "entity_name (PDict d) = (case map_of d ''name'' of Some (PStr n) \<Rightarrow> Some n | _ \<Rightarrow> None)"
| "entity_name v = None"

definition name_occurs :: "string \<Rightarrow> pyval \<Rightarrow> bool" where
  "name_occurs content e =
     (case entity_name e of
        Some n \<Rightarrow> str_contains (lower content) (lower n)
      | None \<Rightarrow> False)"

text \<open>
  The vocabulary of the round trip of a conversation: what a \<^verbatim>\<open>Message\<close> node shows of a
  message (its \<^verbatim>\<open>role\<close>, \<^verbatim>\<open>content\<close> and \<^verbatim>\<open>order\<close> properties), and the state of the graph store
  in which the loop of \<^verbatim>\<open>store_conversation\<close> links every message: the server answers, the
  conversation node \<open>cid\<close> is there, once, with a non-zero id, and the ids not yet given
  are used by no node and by no relationship that leaves \<open>cid\<close>.
\<close>

definition message_view :: "node \<Rightarrow> pyval \<times> pyval \<times> pyval" where
  "message_view n =
     (dict_get (props n) ''role'' PNone, dict_get (props n) ''content'' PNone,
      dict_get (props n) ''order'' PNone)"

definition conv_ready :: "int \<Rightarrow> GraphDatabase \<Rightarrow> bool" where
  "conv_ready cid g =
     (driver g \<and> g_up g \<and> g_faults g = [] \<and> 0 < cid \<and> cid < next_id g
      \<and> (case nodes_with_id g cid of [c] \<Rightarrow> has_label ''Conversation'' c | _ \<Rightarrow> False)
      \<and> list_all (\<lambda>n. node_id n < next_id g) (nodes g)
      \<and> list_all (\<lambda>r. end_id r < next_id g \<or> start_id r \<noteq> cid) (rels g))"

section \<open>Example states\<close>

text \<open>
  A connected manager over empty stores, used for the concrete evaluations below. The
  server's next node id is 1, no fault is scheduled, the collection returns candidates
  in insertion order, and the clock advances by one second per reading. \<open>example_iso\<close>
  renders an instant as its decimal numeral, which keeps the order of the instants used
  here; \<open>example_loads\<close> agrees with \<^verbatim>\<open>json.loads\<close> on the texts used here.
\<close>

definition example_graph :: GraphDatabase where
  "example_graph =
     \<lparr>driver = True, g_up = True, g_faults = [], next_id = 1, nodes = [], rels = []\<rparr>"

definition example_vectors :: VectorDatabase where
  "example_vectors =
     \<lparr>client = True, v_up = True, v_faults = [], uuid4 = (\<lambda>k. ''uuid-'' @ str_int (int k)),
      uuid_next = 0, ranking = (\<lambda>q ds. ds), collection = []\<rparr>"

definition example_iso :: "int \<Rightarrow> string" where
  "example_iso t = str_int t"

definition entities_text :: string where
  "entities_text = ''[{\"name\": \"Bob\", \"type\": \"Person\"}, {\"type\": \"Person\"}]''"

definition facts_text :: string where
  "facts_text = ''[{\"content\": \"Bob works at Acme\"}]''"

definition example_loads :: "string \<Rightarrow> pyval option" where
  "example_loads s =
     (if s = entities_text
      then Some (PList [PDict [(''name'', PStr ''Bob''), (''type'', PStr ''Person'')],
                        PDict [(''type'', PStr ''Person'')]])
      else if s = facts_text
      then Some (PList [PDict [(''content'', PStr ''Bob works at Acme'')]])
      else None)"

definition example_manager :: MemoryManager where
  "example_manager =
     \<lparr>graph_db = example_graph, vector_db = example_vectors, initialized = True,
      clock = (\<lambda>k. 63800000000000000 + int k * 1000000), ticks = 0,
      isoformat = example_iso, json_dumps = (\<lambda>v. ''{}''), json_loads = example_loads\<rparr>"

text \<open>
  The state \<open>example_manager\<close> reaches by
  \<^verbatim>\<open>store_fact("OpenManus is an agent framework", source="test")\<close>.
\<close>

definition fact_node :: node where
  "fact_node =
     \<lparr>node_id = 1, labels = [''Fact''],
      props = [(''content'', PStr ''OpenManus is an agent framework''),
               (''timestamp'', PStr ''63800000000000000''),
               (''source'', PStr ''test'')]\<rparr>"

definition fact_doc :: vdoc where
  "fact_doc =
     \<lparr>doc_text = ''OpenManus is an agent framework'',
      doc_metadata = [(''type'', PStr ''fact''), (''source'', PStr ''test''),
                      (''timestamp'', PStr ''63800000001000000''),
                      (''graph_id'', PStr ''1'')],
      doc_id = ''fact_1''\<rparr>"

definition fact_manager :: MemoryManager where
  "fact_manager =
     example_manager
       \<lparr>graph_db := example_graph\<lparr>next_id := 2, nodes := [fact_node]\<rparr>,
        vector_db := example_vectors\<lparr>collection := [fact_doc]\<rparr>,
        ticks := 2\<rparr>"

text \<open>
  The state \<open>example_manager\<close> reaches by
  \<^verbatim>\<open>store_conversation([{"role": "user", "content": "hi"}], metadata={"type": "note"})\<close>:
  the caller's metadata is merged last, so its \<^verbatim>\<open>type\<close> replaces \<^verbatim>\<open>"conversation"\<close>.
\<close>

definition note_doc :: vdoc where
  "note_doc =
     \<lparr>doc_text = ''user: hi'',
      doc_metadata = [(''type'', PStr ''note''), (''timestamp'', PStr ''63800000002000000''),
                      (''context'', PStr []), (''graph_id'', PStr ''1'')],
      doc_id = ''conversation_1''\<rparr>"

definition note_manager :: MemoryManager where
  "note_manager =
     example_manager
       \<lparr>graph_db := example_graph
          \<lparr>next_id := 3,
           nodes := [\<lparr>node_id = 1, labels = [''Conversation''],
                      props = [(''timestamp'', PStr ''63800000000000000''),
                               (''context'', PStr []), (''type'', PStr ''note'')]\<rparr>,
                     \<lparr>node_id = 2, labels = [''Message''],
                      props = [(''role'', PStr ''user''), (''content'', PStr ''hi''),
                               (''timestamp'', PStr ''63800000001000000''),
                               (''order'', PInt 0)]\<rparr>],
           rels := [\<lparr>start_id = 1, end_id = 2, rel_type = ''CONTAINS'', rel_props = []\<rparr>]\<rparr>,
        vector_db := example_vectors\<lparr>collection := [note_doc]\<rparr>,
        ticks := 3\<rparr>"

text \<open>The memory of a hit, as \<^verbatim>\<open>VectorDatabase.query\<close> formats it.\<close>

definition memory_of :: "vdoc \<Rightarrow> memory" where
  "memory_of d =
     \<lparr>m_document = doc_text d, m_metadata = doc_metadata d, m_id = doc_id d,
      m_related_entities = None, m_messages = None\<rparr>"

section \<open>Lemmas\<close>

lemma starts_with_iff: "starts_with s p \<longleftrightarrow> (\<exists>t. s = p @ t)"
  by (induction s p rule: starts_with.induct) auto

lemma str_contains_iff: "str_contains s sub \<longleftrightarrow> (\<exists>pre post. s = pre @ sub @ post)"
proof (induction s)
  case Nil
  then show ?case by auto
next
  case (Cons c cs)
  show ?case
  proof
    assume "str_contains (c # cs) sub"
    then consider "starts_with (c # cs) sub" | "str_contains cs sub" by auto
    then show "\<exists>pre post. c # cs = pre @ sub @ post"
    proof cases
      case 1
      then obtain t where "c # cs = sub @ t" by (auto simp: starts_with_iff)
      then have "c # cs = [] @ sub @ t" by simp
      then show ?thesis by blast
    next
      case 2
      then obtain pre post where "cs = pre @ sub @ post" using Cons.IH by blast
      then have "c # cs = (c # pre) @ sub @ post" by simp
      then show ?thesis by blast
    qed
  next
    assume "\<exists>pre post. c # cs = pre @ sub @ post"
    then obtain pre post where eq: "c # cs = pre @ sub @ post" by blast
    show "str_contains (c # cs) sub"
    proof (cases pre)
      case Nil
      with eq have "starts_with (c # cs) sub" by (auto simp: starts_with_iff)
      then show ?thesis by simp
    next
      case (Cons a pre')
      with eq have "cs = pre' @ sub @ post" by simp
      then have "str_contains cs sub" using Cons.IH by blast
      then show ?thesis by simp
    qed
  qed
qed

subsection \<open>Keywords that name no parameter\<close>

lemma call_query_query_keyword:
  "call_query [] ((''query'', a) # kws) v = (Inl TypeError, v)"
  by (simp add: call_query_def bind_args_def)

lemma call_delete_where_keyword:
  "call_delete [] ((''where'', a) # kws) v = (Inl TypeError, v)"
  by (simp add: call_delete_def bind_args_def)

subsection \<open>Unfolding the adapters, and the example states\<close>

lemmas graph_defs = session_run_def graph_connect_def graph_ensure_driver_def graph_create_node_def
  has_node_def graph_create_relationship_def graph_query_def has_label_def nodes_with_id_def
  pattern_def order_of_def order_by_order_def detach_delete_def contained_messages_def
lemmas vector_defs = collection_call_def matches_def collection_add_def collection_query_def
  collection_delete_ids_def collection_delete_where_def vector_connect_def vector_ensure_client_def
  vector_add_documents_def vector_query_def vector_delete_def bind_args_def call_add_documents_def
  call_query_def call_delete_def dict_get_def
lemmas manager_defs = now_def now_iso_def initialize_def ensure_initialized_def source_or_agent_def
  context_or_empty_def fact_metadata_def fact_doc_id_def message_properties_def conversation_text_def
  conversation_metadata_def dict_merge_def
lemmas example_defs = example_graph_def example_vectors_def example_manager_def
  fact_node_def fact_doc_def fact_manager_def note_doc_def note_manager_def memory_of_def

lemma str_int_examples:
  "str_int 1 = ''1''"
  "str_int 63800000000000000 = ''63800000000000000''"
  "str_int 63800000001000000 = ''63800000001000000''"
  "str_int 63800000002000000 = ''63800000002000000''"
  "str_int 63800000003000000 = ''63800000003000000''"
  by (simp_all add: str_int_def digits.simps)

lemma store_fact_example:
  "store_fact (PStr ''OpenManus is an agent framework'') (Some ''test'') None example_manager
     = (Inr (Some 1), fact_manager)"
  by (simp add: store_fact_def graph_defs vector_defs manager_defs example_defs example_iso_def str_int_examples
        numeral_2_eq_2)


lemma store_conversation_note_example:
  "store_conversation [[(''role'', ''user''), (''content'', ''hi'')]] None
       (Some [(''type'', PStr ''note'')]) example_manager
     = (Inr True, note_manager)"
  by (simp add: store_conversation_def graph_defs vector_defs manager_defs example_defs example_iso_def
        str_int_examples numeral_3_eq_3)


lemma initialized_examples: "initialized fact_manager" "initialized note_manager" "initialized example_manager"
  by (simp_all add: example_defs)


lemma fact_by_id_example:
  "graph_query (Fact_by_id 1) (graph_db fact_manager) = ([[(''f'', fact_node)]], graph_db fact_manager)"
  by (simp add: graph_defs example_defs)


subsection \<open>What the mismatched keywords do to an initialized manager\<close>

lemma ensure_initialized_id: "initialized m \<Longrightarrow> ensure_initialized m = (True, m)"
  by (simp add: ensure_initialized_def)


lemma retrieve_memories_by_source_TypeError:
  "initialized m \<Longrightarrow> retrieve_memories_by_source source limit m = (Inl TypeError, m)"
  by (simp add: retrieve_memories_by_source_def ensure_initialized_id call_query_query_keyword)


lemma retrieve_recent_memories_TypeError:
  "initialized m \<Longrightarrow> fst (threshold_date days m) = Inr th \<Longrightarrow>
     fst (retrieve_recent_memories memory_type days limit m) = Inl TypeError"
  by (cases "threshold_date days m")
     (simp add: retrieve_recent_memories_def ensure_initialized_id call_query_query_keyword)

lemma threshold_date_in_range:
  "- 999999999 \<le> days \<Longrightarrow> days \<le> 999999999 \<Longrightarrow>
   0 \<le> clock m (ticks m) - days * 86400000000 \<Longrightarrow>
   clock m (ticks m) - days * 86400000000 \<le> max_instant \<Longrightarrow>
     fst (threshold_date days m)
       = Inr (isoformat m (clock m (ticks m) - days * 86400000000))"
  by (simp add: threshold_date_def now_def)

lemma retrieve_related_facts_TypeError:
  "initialized m \<Longrightarrow> graph_query (Fact_by_id i) (graph_db m) = ([(''f'', f)] # rs, g) \<Longrightarrow>
     retrieve_related_facts (Id_int i) limit m = (Inl TypeError, m\<lparr>graph_db := g\<rparr>)"
  by (simp add: retrieve_related_facts_def ensure_initialized_id call_query_query_keyword)


lemma clear_memory_False: "initialized m \<Longrightarrow> clear_memory memory_type m = (False, m)"
  by (simp add: clear_memory_def ensure_initialized_id call_delete_where_keyword
        split: option.split list.split)


section \<open>Deleting from the vector store\<close>

text \<open>
  C10. \<^verbatim>\<open>VectorDatabase.delete\<close> called with no document ids (absent, \<^verbatim>\<open>None\<close> or an empty
  list) and no non-empty metadata filter (absent, \<^verbatim>\<open>None\<close> or an empty dict) returns
  \<^verbatim>\<open>False\<close> and leaves every document of the collection in place.
\<close>

theorem vector_delete_needs_selector:
  assumes "ids = None \<or> ids = Some []"
    and "filter_metadata = None \<or> filter_metadata = Some []"
  shows "fst (vector_delete ids filter_metadata v) = False
       \<and> collection (snd (vector_delete ids filter_metadata v)) = collection v"
  using assms
  by (auto simp: vector_delete_def vector_ensure_client_def vector_connect_def)

theorem vector_delete_needs_selector_witness:
  "fst (vector_delete None (Some [])
          (example_vectors\<lparr>collection := [\<lparr>doc_text = ''a'', doc_metadata = [], doc_id = ''1''\<rparr>]\<rparr>))
     = False
   \<and> collection (snd (vector_delete None (Some [])
          (example_vectors\<lparr>collection := [\<lparr>doc_text = ''a'', doc_metadata = [], doc_id = ''1''\<rparr>]\<rparr>)))
     = [\<lparr>doc_text = ''a'', doc_metadata = [], doc_id = ''1''\<rparr>]"
  using vector_delete_needs_selector [of None "Some []"
      "example_vectors\<lparr>collection := [\<lparr>doc_text = ''a'', doc_metadata = [], doc_id = ''1''\<rparr>]\<rparr>"]
  by simp

section \<open>Retrieval by metadata, and deletion\<close>

text \<open>
  C1. No exception leaves a retrieval operation: a failing store call degrades to an
  empty result. The code does not do so: on the connected manager that holds one fact,
  with both stores healthy, \<^verbatim>\<open>retrieve_memories_by_source("test")\<close> and
  \<^verbatim>\<open>retrieve_recent_memories("fact", days=7)\<close> raise \<^verbatim>\<open>TypeError\<close>, since they call
  \<^verbatim>\<open>VectorDatabase.query\<close> with the keywords \<^verbatim>\<open>query\<close> and \<^verbatim>\<open>where\<close>, which name none of its
  parameters.
\<close>

theorem retrieval_raises_TypeError:
  "fst (retrieve_memories_by_source ''test'' 10 fact_manager) = Inl TypeError
   \<and> fst (retrieve_recent_memories (Some ''fact'') 7 10 fact_manager) = Inl TypeError"
proof -
  have "fst (threshold_date 7 fact_manager) = Inr (example_iso 63799395202000000)"
    by (simp add: threshold_date_def now_def example_defs max_instant_def)
  then show ?thesis
    by (simp add: retrieve_memories_by_source_TypeError retrieve_recent_memories_TypeError
          initialized_examples)
qed

text \<open>
  C4. \<^verbatim>\<open>retrieve_recent_memories\<close> returns the records whose timestamp is strictly greater
  than now minus days. The code does not return: with \<^verbatim>\<open>days=0\<close>, on the manager that holds
  a fact stored one second before, the call raises \<^verbatim>\<open>TypeError\<close> instead of returning the
  list without that fact.
\<close>

theorem retrieve_recent_memories_days0_raises:
  "fst (retrieve_recent_memories None 0 10 fact_manager) = Inl TypeError"
proof -
  have "fst (threshold_date 0 fact_manager) = Inr (example_iso 63800000002000000)"
    by (simp add: threshold_date_def now_def example_defs max_instant_def)
  then show ?thesis
    by (simp add: retrieve_recent_memories_TypeError initialized_examples)
qed

text \<open>
  C3. \<^verbatim>\<open>retrieve_related_facts\<close> with the id of a stored fact queries the vector store for
  \<^verbatim>\<open>limit + 1\<close> facts and returns them without the first. The code does not return:
  \<^verbatim>\<open>store_fact\<close> gives the fact the id 1, and \<^verbatim>\<open>retrieve_related_facts(1)\<close> on the state it
  leaves raises \<^verbatim>\<open>TypeError\<close>.
\<close>

theorem retrieve_related_facts_raises:
  "fst (store_fact (PStr ''OpenManus is an agent framework'') (Some ''test'') None example_manager)
     = Inr (Some 1)
   \<and> fst (retrieve_related_facts (Id_int 1) 10
        (snd (store_fact (PStr ''OpenManus is an agent framework'') (Some ''test'') None
               example_manager))) = Inl TypeError"
  by (simp add: store_fact_example retrieve_related_facts_TypeError [OF _ fact_by_id_example]
        initialized_examples)


text \<open>
  C2. \<^verbatim>\<open>clear_memory("fact")\<close> removes the facts of both stores, and \<^verbatim>\<open>clear_memory()\<close>
  empties both stores. The code does neither: on the manager that holds one fact either
  call returns \<^verbatim>\<open>False\<close> and leaves the whole state as it was, so that
  \<^verbatim>\<open>retrieve_by_entity_type("Fact")\<close> still returns the fact's node. The \<^verbatim>\<open>TypeError\<close> of
  \<^verbatim>\<open>vector_db.delete(where=...)\<close> is caught by the handler of \<^verbatim>\<open>clear_memory\<close> before the graph
  store is touched.
\<close>

theorem clear_memory_keeps_facts:
  "clear_memory (Some ''fact'') fact_manager = (False, fact_manager)
   \<and> fst (retrieve_by_entity_type ''Fact'' 10 fact_manager) = [[(''e'', fact_node)]]
   \<and> clear_memory None fact_manager = (False, fact_manager)"
proof -
  have "fst (retrieve_by_entity_type ''Fact'' 10 fact_manager) = [[(''e'', fact_node)]]"
    by (simp add: retrieve_by_entity_type_def ensure_initialized_id initialized_examples
          graph_defs example_defs)
  then show ?thesis
    by (simp add: clear_memory_False initialized_examples)
qed

section \<open>Categorizing memories\<close>

lemma categorize_loop_filter:
  "categorize_loop ms c =
     c\<lparr>facts := facts c @ filter (\<lambda>r. dict_get (m_metadata r) ''type'' PNone = PStr ''fact'') ms,
       conversations := conversations c
          @ filter (\<lambda>r. dict_get (m_metadata r) ''type'' PNone = PStr ''conversation'') ms\<rparr>"
  by (induction ms arbitrary: c) (auto simp: Let_def)

lemma enhance_length: "enhance rs m = (Inr es, m') \<Longrightarrow> length es = length rs"
proof (induction rs arbitrary: m es m')
  case Nil
  then show ?case by simp
next
  case (Cons r rs)
  then show ?case
    by (auto simp: Let_def split: if_splits sum.splits prod.splits)
qed

lemma vector_query_length: "length (fst (vector_query q n w v)) \<le> nat n"
  by (auto simp: vector_query_def collection_query_def Let_def split: prod.splits)

lemma call_query_limit_length:
  "call_query [AVal (PStr q)] [(''n_results'', AVal (PInt n))] v = (Inr rs, v') \<Longrightarrow>
     length rs \<le> nat n"
  using vector_query_length [of q n None v]
  by (auto simp: call_query_def bind_args_def dict_get_def split: prod.splits)

lemma retrieve_relevant_memories_length:
  "retrieve_relevant_memories q n m = (Inr rs, m') \<Longrightarrow> length rs \<le> nat n"
  by (auto simp: retrieve_relevant_memories_def Let_def
        split: prod.splits if_splits sum.splits dest!: call_query_limit_length enhance_length)

lemma retrieve_relevant_memories_ensure:
  "ensure_initialized m = (True, m1) \<Longrightarrow>
     retrieve_relevant_memories q n m1 = retrieve_relevant_memories q n m"
  by (auto simp: retrieve_relevant_memories_def ensure_initialized_def initialize_def Let_def
        split: if_splits prod.splits)

lemma categorize_memories_retrieve:
  "categorize_memories q m =
     (case retrieve_relevant_memories q 10 m of
        (Inl e, m') \<Rightarrow> (Inl e, m')
      | (Inr rs, m') \<Rightarrow> (Inr (categorize_loop rs \<lparr>facts = [], conversations = []\<rparr>), m'))"
proof (cases "ensure_initialized m")
  case (Pair ok m1)
  show ?thesis
  proof (cases ok)
    case True
    with Pair show ?thesis
      by (simp add: categorize_memories_def retrieve_relevant_memories_ensure)
  next
    case False
    with Pair show ?thesis
      by (simp add: categorize_memories_def retrieve_relevant_memories_def)
  qed
qed

lemma length_filter_disjoint:
  "(\<And>x. \<not> (P x \<and> Q x)) \<Longrightarrow> length (filter P xs) + length (filter Q xs) \<le> length xs"
  by (induction xs) auto

lemma retrieve_fact_example:
  "retrieve_relevant_memories ''agent'' 10 fact_manager
     = (Inr [(memory_of fact_doc)\<lparr>m_related_entities := Some []\<rparr>], fact_manager)"
  by (simp add: retrieve_relevant_memories_def graph_defs vector_defs manager_defs example_defs
        int_of_str_def strip_def is_space_def int_literal_def is_digit_def digit_val_def)

lemma categorize_fact_example:
  "categorize_memories ''agent'' fact_manager
     = (Inr \<lparr>facts = [(memory_of fact_doc)\<lparr>m_related_entities := Some []\<rparr>],
             conversations = []\<rparr>, fact_manager)"
  by (simp add: categorize_memories_retrieve retrieve_fact_example)
     (simp add: example_defs dict_get_def)

lemma retrieve_note_example:
  "retrieve_relevant_memories ''hi'' 10 note_manager = (Inr [memory_of note_doc], note_manager)"
  by (simp add: retrieve_relevant_memories_def graph_defs vector_defs manager_defs example_defs
        Let_def)

text \<open>
  C5, as the spec states it: the two buckets of \<^verbatim>\<open>categorize_memories(q)\<close> together hold
  exactly the results of \<^verbatim>\<open>retrieve_relevant_memories(q, limit=10)\<close>. It fails on the
  manager that stored a conversation with the metadata \<^verbatim>\<open>{"type": "note"}\<close>: the retrieval
  returns that record, and both buckets are empty.
\<close>

theorem categorize_memories_drops_other_types:
  "fst (retrieve_relevant_memories ''hi'' 10 note_manager) = Inr [memory_of note_doc]
   \<and> fst (categorize_memories ''hi'' note_manager) = Inr \<lparr>facts = [], conversations = []\<rparr>"
  by (simp add: categorize_memories_retrieve retrieve_note_example)
     (simp add: example_defs dict_get_def)

text \<open>
  C5, amended. When \<^verbatim>\<open>categorize_memories(q)\<close> returns, \<^verbatim>\<open>retrieve_relevant_memories(q, 10)\<close>
  on the same state returns a list \<open>rs\<close> and leaves the same state; \<^verbatim>\<open>facts\<close> is the
  sublist of \<open>rs\<close> whose metadata \<^verbatim>\<open>type\<close> is \<^verbatim>\<open>"fact"\<close>, \<^verbatim>\<open>conversations\<close> the sublist whose
  \<^verbatim>\<open>type\<close> is \<^verbatim>\<open>"conversation"\<close>, both in the order of \<open>rs\<close>; their union is the set of the
  results of these two types (a result of any other type is in neither), and together
  they hold at most 10 records.
\<close>

theorem categorize_memories_partition:
  assumes "categorize_memories q m = (Inr c, m')"
  shows "\<exists>rs. retrieve_relevant_memories q 10 m = (Inr rs, m')
     \<and> facts c = filter (\<lambda>r. dict_get (m_metadata r) ''type'' PNone = PStr ''fact'') rs
     \<and> conversations c
          = filter (\<lambda>r. dict_get (m_metadata r) ''type'' PNone = PStr ''conversation'') rs
     \<and> set (facts c) \<union> set (conversations c)
          = {r \<in> set rs. dict_get (m_metadata r) ''type'' PNone = PStr ''fact''
                        \<or> dict_get (m_metadata r) ''type'' PNone = PStr ''conversation''}
     \<and> length (facts c) + length (conversations c) \<le> 10"
proof -
  from assms obtain rs where
    r: "retrieve_relevant_memories q 10 m = (Inr rs, m')" and
    c: "c = categorize_loop rs \<lparr>facts = [], conversations = []\<rparr>"
    by (auto simp: categorize_memories_retrieve split: prod.splits sum.splits)
  have f: "facts c = filter (\<lambda>r. dict_get (m_metadata r) ''type'' PNone = PStr ''fact'') rs"
    and v: "conversations c
          = filter (\<lambda>r. dict_get (m_metadata r) ''type'' PNone = PStr ''conversation'') rs"
    by (simp_all add: c categorize_loop_filter)
  have "length rs \<le> 10"
    using retrieve_relevant_memories_length [OF r] by simp
  moreover have "length (facts c) + length (conversations c) \<le> length rs"
    unfolding f v by (rule length_filter_disjoint) auto
  ultimately have "length (facts c) + length (conversations c) \<le> 10" by simp
  moreover have "set (facts c) \<union> set (conversations c)
          = {r \<in> set rs. dict_get (m_metadata r) ''type'' PNone = PStr ''fact''
                        \<or> dict_get (m_metadata r) ''type'' PNone = PStr ''conversation''}"
    unfolding f v by auto
  ultimately show ?thesis using r f v by blast
qed

theorem categorize_memories_partition_witness:
  "categorize_memories ''agent'' fact_manager
     = (Inr \<lparr>facts = [(memory_of fact_doc)\<lparr>m_related_entities := Some []\<rparr>],
             conversations = []\<rparr>, fact_manager)
   \<and> (\<exists>rs. retrieve_relevant_memories ''agent'' 10 fact_manager = (Inr rs, fact_manager)
     \<and> [(memory_of fact_doc)\<lparr>m_related_entities := Some []\<rparr>]
          = filter (\<lambda>r. dict_get (m_metadata r) ''type'' PNone = PStr ''fact'') rs
     \<and> [] = filter (\<lambda>r. dict_get (m_metadata r) ''type'' PNone = PStr ''conversation'') rs
     \<and> length [(memory_of fact_doc)\<lparr>m_related_entities := Some []\<rparr>] + length ([] :: memory list)
          \<le> 10)"
  using categorize_memories_partition [OF categorize_fact_example] categorize_fact_example
  by auto

section \<open>The extraction stage\<close>

text \<open>
  C8. When the responses of the extraction service are not well-formed JSON
  (\<^verbatim>\<open>json.loads\<close> raises on both), lines 74--100 of \<^verbatim>\<open>knowledge_agent\<close> end normally with the
  empty entity list and leave the memory manager's state, both stores included, as it
  was: no entity, no fact, nothing stored, no exception.
\<close>

theorem extraction_tolerates_malformed_output:
  assumes "json_loads m entity_response = None" and "json_loads m fact_response = None"
  shows "extract_and_store entity_response fact_response m = (Inr (PList []), m)"
  using assms
  by (simp add: extract_and_store_def parse_entities_def parse_and_store_facts_def)

theorem extraction_tolerates_malformed_output_witness:
  "json_loads example_manager ''not json'' = None
   \<and> extract_and_store ''not json'' ''not json'' example_manager
       = (Inr (PList []), example_manager)"
  using extraction_tolerates_malformed_output [of example_manager "''not json''" "''not json''"]
  by (simp add: example_manager_def example_loads_def entities_text_def facts_text_def)

lemma entity_name_SomeD:
  "entity_name e = Some n \<Longrightarrow> \<exists>d. e = PDict d \<and> map_of d ''name'' = Some (PStr n)"
  by (cases e) (auto split: option.splits pyval.splits)

lemma related_loop_filter:
  assumes "py_getitem fct ''content'' = Inr (PStr content)"
    and "list_all (\<lambda>e. entity_name e \<noteq> None) ents"
  shows "related_loop ents fct related = Inr (related @ filter (name_occurs content) ents)"
  using assms(2)
proof (induction ents arbitrary: related)
  case Nil
  then show ?case by simp
next
  case (Cons e ents)
  then obtain n where n: "entity_name e = Some n" by auto
  then obtain d where d: "e = PDict d" "map_of d ''name'' = Some (PStr n)"
    using entity_name_SomeD by blast
  from Cons have IH: "\<And>related. related_loop ents fct related
      = Inr (related @ filter (name_occurs content) ents)" by simp
  have occ: "name_occurs content (PDict d) = str_contains (lower content) (lower n)"
    by (simp add: name_occurs_def d)
  show ?case
    using assms(1) d by (simp add: IH occ)
qed

text \<open>
  An extracted entity that is not a dict with a str \<^verbatim>\<open>name\<close> ends the loop at the fact it
  is compared with: the exception leaves the state as it was, and neither that fact nor
  a later one is passed to \<^verbatim>\<open>store_fact\<close>.
\<close>

lemma unnamed_entity_raises:
  assumes "entity_name e = None"
  shows "(\<exists>err. py_getitem e ''name'' = Inl err)
       \<or> (\<exists>v err. py_getitem e ''name'' = Inr v \<and> py_lower v = Inl err)"
proof (cases e)
  case (PDict d)
  show ?thesis
  proof (cases "map_of d ''name''")
    case None
    with PDict show ?thesis by simp
  next
    case (Some v)
    with PDict assms have "py_lower v = Inl AttributeError"
      by (cases v) simp_all
    with PDict Some show ?thesis by simp
  qed
qed simp_all

lemma related_loop_unnamed:
  "list_ex (\<lambda>e. entity_name e = None) ents \<Longrightarrow> \<exists>err. related_loop ents fct related = Inl err"
proof (induction ents arbitrary: related)
  case Nil
  then show ?case by simp
next
  case (Cons e ents)
  show ?case
  proof (cases "entity_name e")
    case None
    from unnamed_entity_raises [OF this] show ?thesis
      by auto
  next
    case (Some n)
    with Cons.prems have "list_ex (\<lambda>e. entity_name e = None) ents" by simp
    from Cons.IH [OF this] show ?thesis
      by (auto split: sum.splits)
  qed
qed

lemma unnamed_entity_ends_loop:
  assumes "py_iter entities = Inr ents"
    and "list_ex (\<lambda>e. entity_name e = None) ents"
  shows "\<exists>err. store_facts (fct # rest) entities m = (Some err, m)"
proof -
  from related_loop_unnamed [OF assms(2), of fct "[]"] obtain err where
    "related_loop ents fct [] = Inl err" by blast
  with assms(1) show ?thesis by simp
qed

lemma bob_occurs:
  "filter (name_occurs ''Bob works at Acme'')
     [PDict [(''name'', PStr ''Bob''), (''type'', PStr ''Person'')],
      PDict [(''name'', PStr ''Carol'')]]
   = [PDict [(''name'', PStr ''Bob''), (''type'', PStr ''Person'')]]"
  by code_simp

lemma bob_in_content: "str_contains (lower ''Bob works at Acme'') (lower ''Bob'')"
  by code_simp

text \<open>
  C9, as the spec states it: an entity is passed to \<^verbatim>\<open>store_fact\<close> with a fact if and only if
  its lowercased name occurs in the fact's lowercased content. It fails when another
  extracted entity has no \<^verbatim>\<open>name\<close>: for the entities
  \<^verbatim>\<open>[{"name": "Bob", "type": "Person"}, {"type": "Person"}]\<close> and the fact
  \<^verbatim>\<open>{"content": "Bob works at Acme"}\<close>, ``bob'' occurs in the content, but the \<^verbatim>\<open>KeyError\<close> of
  the second entity ends the loop before \<^verbatim>\<open>store_fact\<close> is called: the state is unchanged,
  and Bob is linked to nothing.
\<close>

theorem missing_name_stops_linking:
  "str_contains (lower ''Bob works at Acme'') (lower ''Bob'')
   \<and> extract_and_store entities_text facts_text example_manager
       = (Inr (PList [PDict [(''name'', PStr ''Bob''), (''type'', PStr ''Person'')],
                      PDict [(''type'', PStr ''Person'')]]), example_manager)"
proof -
  have "extract_and_store entities_text facts_text example_manager
       = (Inr (PList [PDict [(''name'', PStr ''Bob''), (''type'', PStr ''Person'')],
                      PDict [(''type'', PStr ''Person'')]]), example_manager)"
    by (simp add: extract_and_store_def parse_entities_def parse_and_store_facts_def
          example_manager_def example_loads_def entities_text_def facts_text_def)
  with bob_in_content show ?thesis by simp
qed

text \<open>
  C9, amended. For a fact the loop reaches whose \<^verbatim>\<open>content\<close> is a str, when every extracted
  entity is a dict with a str \<^verbatim>\<open>name\<close>: the loop calls \<^verbatim>\<open>store_fact\<close> with the content, the
  source \<^verbatim>\<open>"conversation"\<close> and, as related entities, exactly the entities whose lowercased
  name is a substring of the lowercased content, in extraction order; it goes on with
  the next fact when \<^verbatim>\<open>store_fact\<close> returns, and ends when it raises.
\<close>

theorem related_entities_by_substring:
  assumes "py_iter entities = Inr ents"
    and "list_all (\<lambda>e. entity_name e \<noteq> None) ents"
    and "py_getitem fct ''content'' = Inr (PStr content)"
  shows "store_facts (fct # rest) entities m =
           (case store_fact (PStr content) (Some ''conversation'')
                   (Some (filter (name_occurs content) ents)) m of
              (Inl e, m') \<Rightarrow> (Some e, m')
            | (Inr fact_node_id, m') \<Rightarrow> store_facts rest entities m')
       \<and> (\<forall>e n. entity_name e = Some n \<longrightarrow>
             (name_occurs content e \<longleftrightarrow> (\<exists>pre post. lower content = pre @ lower n @ post)))"
  using assms
  by (simp add: related_loop_filter name_occurs_def str_contains_iff)

theorem related_entities_by_substring_witness:
  "store_facts [PDict [(''content'', PStr ''Bob works at Acme'')]]
       (PList [PDict [(''name'', PStr ''Bob''), (''type'', PStr ''Person'')],
               PDict [(''name'', PStr ''Carol'')]]) example_manager
     = (case store_fact (PStr ''Bob works at Acme'') (Some ''conversation'')
               (Some [PDict [(''name'', PStr ''Bob''), (''type'', PStr ''Person'')]])
               example_manager of
          (Inl e, m') \<Rightarrow> (Some e, m')
        | (Inr fact_node_id, m') \<Rightarrow> store_facts [] (PList [PDict [(''name'', PStr ''Bob''), (''type'', PStr ''Person'')],
               PDict [(''name'', PStr ''Carol'')]]) m')"
  using related_entities_by_substring
          [of "PList [PDict [(''name'', PStr ''Bob''), (''type'', PStr ''Person'')],
                      PDict [(''name'', PStr ''Carol'')]]"
              "[PDict [(''name'', PStr ''Bob''), (''type'', PStr ''Person'')],
                PDict [(''name'', PStr ''Carol'')]]"
              "PDict [(''content'', PStr ''Bob works at Acme'')]"
              "''Bob works at Acme''" "[]" example_manager]
  by (simp only: bob_occurs) simp

section \<open>Storing a fact\<close>

lemma link_entities_frame:
  "link_entities fid es m = (r, m') \<Longrightarrow> \<exists>g. m' = m\<lparr>graph_db := g\<rparr>"
proof (induction es arbitrary: m r m')
  case Nil
  then have "m' = m\<lparr>graph_db := graph_db m\<rparr>" by simp
  then show ?case by blast
next
  case (Cons e es)
  show ?case
  proof (cases "\<exists>entity. e = PDict entity")
    case True
    then obtain entity where "e = PDict entity" by blast
    with Cons show ?thesis
      by (fastforce split: prod.splits sum.splits option.splits)
  next
    case False
    with Cons.prems have "m' = m\<lparr>graph_db := graph_db m\<rparr>"
      by (cases e) simp_all
    then show ?thesis by blast
  qed
qed

lemma call_add_documents_keywords:
  "call_add_documents [] [(''documents'', ADocs ds), (''metadatas'', AMetas ms), (''ids'', AIds is)] v
     = (Inr (fst (vector_add_documents ds (Some ms) (Some is) v)),
        snd (vector_add_documents ds (Some ms) (Some is) v))"
  by (simp add: call_add_documents_def bind_args_def dict_get_def split: prod.splits)

lemma ensure_initialized_frame:
  "ensure_initialized m = (ok, m1) \<Longrightarrow>
     clock m1 = clock m \<and> ticks m1 = ticks m \<and> isoformat m1 = isoformat m"
  by (auto simp: ensure_initialized_def initialize_def Let_def split: if_splits prod.splits)

lemma vector_add_documents_appends:
  "client v \<Longrightarrow> \<not> fst (collection_call v) \<Longrightarrow>
     collection (snd (vector_add_documents [PStr d] (Some [md]) (Some [Some i]) v))
       = collection v @ [\<lparr>doc_text = d, doc_metadata = md, doc_id = i\<rparr>]"
  by (auto simp: vector_add_documents_def vector_ensure_client_def collection_call_def
        collection_add_def Let_def split: list.splits prod.splits)

lemma store_fact_uninitialized:
  "ensure_initialized m = (False, m1) \<Longrightarrow> store_fact f source related m = (Inr None, m1)"
  by (simp add: store_fact_def)

lemma create_fact_example:
  "graph_create_node [PStr ''Fact'']
      [(''content'', PStr ''OpenManus is an agent framework''),
       (''timestamp'', PStr (isoformat example_manager
                              (clock example_manager (ticks example_manager)))),
       (''source'', PStr (source_or_agent (Some ''test'')))] (graph_db example_manager)
     = (Inr (Some 1), example_graph\<lparr>nodes := [fact_node], next_id := 2\<rparr>)"
  by (simp add: graph_defs manager_defs example_defs example_iso_def str_int_examples)

text \<open>
  C6, as the spec states it: the vector document of a stored fact carries the given
  source. It fails for the source \<^verbatim>\<open>""\<close>: the call returns the graph id 1, and the document
  it adds has the source \<^verbatim>\<open>"agent"\<close>, since the code stores \<^verbatim>\<open>source or "agent"\<close>.
\<close>

theorem store_fact_empty_source:
  "fst (store_fact (PStr ''OpenManus is an agent framework'') (Some []) None example_manager)
     = Inr (Some 1)
   \<and> map doc_metadata (collection (vector_db (snd
         (store_fact (PStr ''OpenManus is an agent framework'') (Some []) None example_manager))))
     = [[(''type'', PStr ''fact''), (''source'', PStr ''agent''),
         (''timestamp'', PStr ''63800000001000000''), (''graph_id'', PStr ''1'')]]"
  by (simp add: store_fact_def graph_defs vector_defs manager_defs example_defs example_iso_def
        str_int_examples)

text \<open>
  C6, amended. On a manager that is, or can be, initialized, whenever \<^verbatim>\<open>store_fact\<close> returns,
  it returns what the creation of the \<^verbatim>\<open>Fact\<close> node gave: the node id, or \<^verbatim>\<open>None\<close> when the
  creation failed; nothing about the vector store is assumed. When the id is not 0, the
  vector store is left as by one
  \<^verbatim>\<open>add_documents\<close> of the fact text with the metadata \<^verbatim>\<open>type = "fact"\<close>, the source (\<^verbatim>\<open>"agent"\<close>
  when it is absent or empty), the timestamp of the second clock reading and \<^verbatim>\<open>graph_id\<close>
  = \<^verbatim>\<open>str(id)\<close>, under the id \<^verbatim>\<open>"fact_" + str(id)\<close>; and when the collection accepts the call,
  that document is the one added.
\<close>

theorem store_fact_mirror:
  assumes init: "ensure_initialized m = (True, m1)"
    and create: "graph_create_node [PStr ''Fact'']
          [(''content'', PStr content),
           (''timestamp'', PStr (isoformat m1 (clock m1 (ticks m1)))),
           (''source'', PStr (source_or_agent source))] (graph_db m1) = (Inr gid, g)"
    and ret: "store_fact (PStr content) source related m = (Inr r, m')"
  shows "r = gid
     \<and> (\<forall>i. gid = Some i \<and> i \<noteq> 0 \<longrightarrow>
          vector_db m' = snd (vector_add_documents [PStr content]
            (Some [[(''type'', PStr ''fact''),
                    (''source'', PStr (source_or_agent source)),
                    (''timestamp'', PStr (isoformat m1 (clock m1 (Suc (ticks m1))))),
                    (''graph_id'', PStr (str_int i))]])
            (Some [Some (''fact_'' @ str_int i)]) (vector_db m1)))
     \<and> (\<forall>i. gid = Some i \<and> i \<noteq> 0 \<and> client (vector_db m1)
              \<and> \<not> fst (collection_call (vector_db m1)) \<longrightarrow>
          collection (vector_db m') = collection (vector_db m1) @
            [\<lparr>doc_text = content,
              doc_metadata =
                [(''type'', PStr ''fact''),
                 (''source'', PStr (source_or_agent source)),
                 (''timestamp'', PStr (isoformat m1 (clock m1 (Suc (ticks m1))))),
                 (''graph_id'', PStr (str_int i))],
              doc_id = ''fact_'' @ str_int i\<rparr>])"
proof -
  define m3 where "m3 = m1\<lparr>ticks := Suc (ticks m1), graph_db := g\<rparr>"
  define linked where "linked =
     (case (related, truthy_id gid) of
        (Some (e # es), Some fid) \<Rightarrow> link_entities fid (e # es) m3
      | _ \<Rightarrow> (None, m3))"
  obtain raised m4 where l: "linked = (raised, m4)" by (cases linked)
  have "\<exists>g'. m4 = m3\<lparr>graph_db := g'\<rparr>"
  proof (cases "\<exists>e es fid. related = Some (e # es) \<and> truthy_id gid = Some fid")
    case True
    then show ?thesis using l link_entities_frame unfolding linked_def by fastforce
  next
    case False
    then have "linked = (None, m3)"
      unfolding linked_def by (auto split: option.splits list.splits)
    with l have "m4 = m3\<lparr>graph_db := graph_db m3\<rparr>" by simp
    then show ?thesis by blast
  qed
  then obtain g' where m4: "m4 = m3\<lparr>graph_db := g'\<rparr>" by blast
  have sf: "store_fact (PStr content) source related m =
      (case raised of
         Some e \<Rightarrow> (Inl e, m4)
       | None \<Rightarrow>
           (Inr gid,
            m4\<lparr>ticks := Suc (Suc (ticks m1)),
               vector_db := snd (vector_add_documents [PStr content]
                 (Some [fact_metadata source (isoformat m1 (clock m1 (Suc (ticks m1)))) gid])
                 (Some [fact_doc_id gid]) (vector_db m1))\<rparr>))"
    using init create l
    unfolding store_fact_def linked_def m3_def
    by (simp add: now_iso_def now_def call_add_documents_keywords m4 m3_def
          split: option.splits)
  from ret sf have r: "r = gid"
    and v: "vector_db m' = snd (vector_add_documents [PStr content]
                 (Some [fact_metadata source (isoformat m1 (clock m1 (Suc (ticks m1)))) gid])
                 (Some [fact_doc_id gid]) (vector_db m1))"
    by (auto split: option.splits)
  show ?thesis
    using r v by (auto simp: fact_metadata_def fact_doc_id_def vector_add_documents_appends)
qed

theorem store_fact_mirror_witness:
  "store_fact (PStr ''OpenManus is an agent framework'') (Some ''test'') None example_manager
     = (Inr (Some 1), fact_manager)
   \<and> collection (vector_db fact_manager) =
       [\<lparr>doc_text = ''OpenManus is an agent framework'',
         doc_metadata = [(''type'', PStr ''fact''), (''source'', PStr ''test''),
                         (''timestamp'', PStr ''63800000001000000''),
                         (''graph_id'', PStr ''1'')],
         doc_id = ''fact_1''\<rparr>]"
proof -
  have c: "client (vector_db example_manager)"
    "\<not> fst (collection_call (vector_db example_manager))"
    by (simp_all add: example_defs collection_call_def)
  note t = store_fact_mirror [OF ensure_initialized_id [OF initialized_examples(3)]
          create_fact_example store_fact_example]
  have "collection (vector_db fact_manager) = collection (vector_db example_manager) @
            [\<lparr>doc_text = ''OpenManus is an agent framework'',
              doc_metadata =
                [(''type'', PStr ''fact''),
                 (''source'', PStr (source_or_agent (Some ''test''))),
                 (''timestamp'', PStr (isoformat example_manager
                      (clock example_manager (Suc (ticks example_manager))))),
                 (''graph_id'', PStr (str_int 1))],
              doc_id = ''fact_'' @ str_int 1\<rparr>]"
    by (rule t [THEN conjunct2, THEN conjunct2, rule_format, of 1]) (simp add: c)
  also have "\<dots> = [\<lparr>doc_text = ''OpenManus is an agent framework'',
         doc_metadata = [(''type'', PStr ''fact''), (''source'', PStr ''test''),
                         (''timestamp'', PStr ''63800000001000000''),
                         (''graph_id'', PStr ''1'')],
         doc_id = ''fact_1''\<rparr>]"
    by (simp add: manager_defs example_defs example_iso_def str_int_examples)
  finally show ?thesis
    using store_fact_example by simp
qed

text \<open>
  The id 0, which the server gives the first node of an empty database, is outside the
  theorem above: \<^verbatim>\<open>fact_node_id\<close> is tested for truth, so the call returns 0, builds the
  document with \<^verbatim>\<open>graph_id = None\<close> and the id \<^verbatim>\<open>None\<close>, and the collection refuses it.
\<close>

lemma store_fact_first_node:
  "fst (store_fact (PStr ''OpenManus is an agent framework'') (Some ''test'') None
          (example_manager\<lparr>graph_db := example_graph\<lparr>next_id := 0\<rparr>\<rparr>)) = Inr (Some 0)
   \<and> collection (vector_db (snd
         (store_fact (PStr ''OpenManus is an agent framework'') (Some ''test'') None
            (example_manager\<lparr>graph_db := example_graph\<lparr>next_id := 0\<rparr>\<rparr>)))) = []"
  by (simp add: store_fact_def graph_defs vector_defs manager_defs example_defs example_iso_def
        str_int_examples)

section \<open>Storing a conversation\<close>

lemma nodes_with_id_fresh:
  "list_all (\<lambda>n. node_id n < k) (nodes g) \<Longrightarrow> k \<le> x \<Longrightarrow> nodes_with_id g x = []"
  by (auto simp: nodes_with_id_def list_all_iff filter_empty_conv)

lemma nodes_with_id_node_id: "c \<in> set (nodes_with_id g x) \<Longrightarrow> node_id c = x"
  by (simp add: nodes_with_id_def)

lemma has_node_nodes_with_id: "has_node g i \<longleftrightarrow> nodes_with_id g i \<noteq> []"
  by (auto simp: has_node_def nodes_with_id_def list_ex_iff filter_empty_conv)

lemma contained_messages_no_start:
  assumes "list_all (\<lambda>r. start_id r \<noteq> cid) (rels g)"
  shows "contained_messages g cid = []"
proof -
  have "filter (\<lambda>(c, m). node_id c = cid \<and> has_label ''Conversation'' c \<and> has_label ''Message'' m)
          (pattern g ''CONTAINS'') = []"
    using assms
    by (auto simp: filter_empty_conv pattern_def list_all_iff nodes_with_id_def)
  then show ?thesis by (simp add: contained_messages_def)
qed

lemma link_step:
  fixes g :: GraphDatabase and cid :: int and ps :: pydict
  defines "k \<equiv> next_id g"
  defines "mn \<equiv> \<lparr>node_id = k, labels = [''Message''], props = ps\<rparr>"
  defines "nr \<equiv> \<lparr>start_id = cid, end_id = k, rel_type = ''CONTAINS'', rel_props = []\<rparr>"
  defines "G \<equiv> g\<lparr>nodes := nodes g @ [mn], next_id := k + 1, rels := rels g @ [nr]\<rparr>"
  assumes inv: "conv_ready cid g"
  shows "contained_messages G cid = contained_messages g cid @ [mn]"
    and "conv_ready cid G"
proof -
  from inv obtain c where c: "nodes_with_id g cid = [c]" "has_label ''Conversation'' c"
    by (auto simp: conv_ready_def split: list.splits)
  from inv have lt: "cid < k" "0 < cid"
    and fresh: "list_all (\<lambda>n. node_id n < k) (nodes g)"
    and rl: "list_all (\<lambda>r. end_id r < k \<or> start_id r \<noteq> cid) (rels g)"
    and run: "driver g" "g_up g" "g_faults g = []"
    by (auto simp: conv_ready_def k_def)
  have nw: "nodes_with_id G x = nodes_with_id g x @ (if k = x then [mn] else [])" for x
    by (simp add: G_def nodes_with_id_def mn_def)
  have nk: "nodes_with_id g k = []"
    using fresh nodes_with_id_fresh by simp
  have cc: "node_id c = cid"
    using c(1) nodes_with_id_node_id [of c g cid] by simp
  define F where "F = (\<lambda>(c::node, m::node).
      node_id c = cid \<and> has_label ''Conversation'' c \<and> has_label ''Message'' m)"
  define P where "P = (\<lambda>(h::GraphDatabase) (r::rel).
      List.product (nodes_with_id h (start_id r)) (nodes_with_id h (end_id r)))"
  have old: "filter F (P G r) = filter F (P g r)" if "r \<in> set (rels g)" for r
  proof (cases "start_id r = cid")
    case True
    with rl that have "end_id r < k" by (auto simp: list_all_iff)
    with True lt show ?thesis by (simp add: P_def nw)
  next
    case False
    have "filter F (P h r) = []" for h
      using False by (auto simp: P_def F_def filter_empty_conv nodes_with_id_def)
    then show ?thesis by simp
  qed
  have new: "filter F (P G nr) = [(c, mn)]"
    using c lt nk cc by (simp add: P_def nw F_def has_label_def mn_def nr_def)
  let ?xs = "filter (\<lambda>r. rel_type r = ''CONTAINS'') (rels g)"
  have "filter F (concat (map (P G) ?xs)) = concat (map (\<lambda>r. filter F (P G r)) ?xs)"
    by (simp add: filter_concat comp_def)
  also have "\<dots> = concat (map (\<lambda>r. filter F (P g r)) ?xs)"
    using old by (intro arg_cong [where f = concat] map_cong) auto
  also have "\<dots> = filter F (concat (map (P g) ?xs))"
    by (simp add: filter_concat comp_def)
  finally have oldpart:
    "filter F (concat (map (P G) ?xs)) = filter F (concat (map (P g) ?xs))" .
  have "filter (\<lambda>r. rel_type r = ''CONTAINS'') (rels G) = ?xs @ [nr]"
    by (simp add: G_def nr_def)
  then have "filter F (pattern G ''CONTAINS'') = filter F (pattern g ''CONTAINS'') @ [(c, mn)]"
    using oldpart new by (simp add: pattern_def P_def)
  then show "contained_messages G cid = contained_messages g cid @ [mn]"
    by (simp add: contained_messages_def F_def)
  have "nodes_with_id G cid = [c]"
    using c lt by (simp add: nw)
  moreover have "list_all (\<lambda>n. node_id n < k + 1) (nodes G)"
    using fresh by (auto simp: G_def mn_def list_all_iff)
  moreover have "list_all (\<lambda>r. end_id r < k + 1 \<or> start_id r \<noteq> cid) (rels G)"
    using rl by (auto simp: G_def nr_def list_all_iff)
  ultimately show "conv_ready cid G"
    using run lt c(2) by (simp add: conv_ready_def G_def)
qed

lemma create_message_ready:
  assumes "conv_ready cid g"
  shows "graph_create_node [PStr ''Message''] ps g =
           (Inr (Some (next_id g)),
            g\<lparr>nodes := nodes g @ [\<lparr>node_id = next_id g, labels = [''Message''], props = ps\<rparr>],
              next_id := next_id g + 1\<rparr>)"
  using assms
  by (simp add: conv_ready_def graph_create_node_def graph_ensure_driver_def session_run_def)

lemma create_contains_ready:
  assumes "conv_ready cid g"
  shows "graph_create_relationship cid (next_id g) ''CONTAINS'' None
           (g\<lparr>nodes := nodes g @ [\<lparr>node_id = next_id g, labels = [''Message''], props = ps\<rparr>],
              next_id := next_id g + 1\<rparr>) =
           (True,
            g\<lparr>nodes := nodes g @ [\<lparr>node_id = next_id g, labels = [''Message''], props = ps\<rparr>],
              next_id := next_id g + 1,
              rels := rels g @ [\<lparr>start_id = cid, end_id = next_id g, rel_type = ''CONTAINS'',
                                 rel_props = []\<rparr>]\<rparr>)"
proof -
  from assms have "nodes_with_id g cid \<noteq> []"
    by (auto simp: conv_ready_def split: list.splits)
  then have "list_ex (\<lambda>n. node_id n = cid) (nodes g)"
    using has_node_nodes_with_id [of g cid] by (simp add: has_node_def)
  then show ?thesis
    using assms
    by (simp add: conv_ready_def graph_create_relationship_def graph_ensure_driver_def
          session_run_def has_node_def)
qed

lemma message_view_properties:
  "message_view \<lparr>node_id = k, labels = ls, props = message_properties msg t i\<rparr>
     = (PStr (dict_get msg ''role'' ''unknown''), PStr (dict_get msg ''content'' []), PInt (int i))"
  by (simp add: message_view_def message_properties_def dict_get_def)

lemma store_messages_linked:
  assumes "conv_ready cid (graph_db m)"
  shows "\<exists>m'. store_messages (Some cid) i msgs m = (None, m')
          \<and> conv_ready cid (graph_db m')
          \<and> map message_view (contained_messages (graph_db m') cid)
              = map message_view (contained_messages (graph_db m) cid)
                @ map (\<lambda>(j, msg). (PStr (dict_get msg ''role'' ''unknown''),
                                     PStr (dict_get msg ''content'' []), PInt (int j)))
                      (enumerate i msgs)"
  using assms
proof (induction msgs arbitrary: m i)
  case Nil
  then show ?case by simp
next
  case (Cons msg rest)
  define g where "g = graph_db m"
  define t where "t = isoformat m (clock m (ticks m))"
  define mn where
    "mn = \<lparr>node_id = next_id g, labels = [''Message''], props = message_properties msg t i\<rparr>"
  define G where "G = g\<lparr>nodes := nodes g @ [mn], next_id := next_id g + 1,
      rels := rels g @ [\<lparr>start_id = cid, end_id = next_id g, rel_type = ''CONTAINS'',
                         rel_props = []\<rparr>]\<rparr>"
  define m1 where "m1 = m\<lparr>ticks := Suc (ticks m), graph_db := G\<rparr>"
  from Cons.prems have inv: "conv_ready cid g" by (simp add: g_def)
  then have pos: "0 < cid" "cid < next_id g" by (auto simp: conv_ready_def)
  have cn: "graph_create_node [PStr ''Message''] (message_properties msg t i) g =
      (Inr (Some (next_id g)), g\<lparr>nodes := nodes g @ [mn], next_id := next_id g + 1\<rparr>)"
    using create_message_ready [OF inv, of "message_properties msg t i"] by (simp add: mn_def)
  have cr: "graph_create_relationship cid (next_id g) ''CONTAINS'' None
      (g\<lparr>nodes := nodes g @ [mn], next_id := next_id g + 1\<rparr>) = (True, G)"
    using create_contains_ready [OF inv, of "message_properties msg t i"]
    by (simp add: mn_def G_def)
  have step: "store_messages (Some cid) i (msg # rest) m = store_messages (Some cid) (Suc i) rest m1"
    using pos
    by (simp add: now_iso_def now_def g_def [symmetric] t_def [symmetric] cn cr m1_def)
  have cm: "contained_messages G cid = contained_messages g cid @ [mn]"
    and inv': "conv_ready cid G"
    using link_step [OF inv, of "message_properties msg t i"] by (simp_all add: G_def mn_def)
  from inv' have "conv_ready cid (graph_db m1)" by (simp add: m1_def)
  from Cons.IH [OF this, of "Suc i"] obtain m' where
    r: "store_messages (Some cid) (Suc i) rest m1 = (None, m')" and
    i': "conv_ready cid (graph_db m')" and
    v: "map message_view (contained_messages (graph_db m') cid)
              = map message_view (contained_messages (graph_db m1) cid)
                @ map (\<lambda>(j, msg). (PStr (dict_get msg ''role'' ''unknown''),
                                     PStr (dict_get msg ''content'' []), PInt (int j)))
                      (enumerate (Suc i) rest)"
    by blast
  have "map message_view (contained_messages (graph_db m1) cid)
      = map message_view (contained_messages (graph_db m) cid)
        @ [(PStr (dict_get msg ''role'' ''unknown''), PStr (dict_get msg ''content'' []),
            PInt (int i))]"
    by (simp add: m1_def cm g_def [symmetric] mn_def message_view_properties)
  with r i' v step show ?case by simp
qed

lemma order_of_view: "dict_get (props n) ''order'' PNone = PInt j \<Longrightarrow> order_of n = Some j"
  by (auto simp: dict_get_def order_of_def split: option.splits)

lemma order_of_views:
  "map (\<lambda>n. dict_get (props n) ''order'' PNone) ns = map PInt js \<Longrightarrow>
     map order_of ns = map Some js"
  by (induction ns arbitrary: js) (auto simp: order_of_view)

lemma order_by_order_views:
  assumes "map message_view ns =
     map (\<lambda>(j, msg). (r msg, c msg, PInt (int j))) (enumerate 0 msgs)"
  shows "order_by_order ns = ns"
proof -
  have "map (\<lambda>n. snd (snd (message_view n))) ns
      = map (\<lambda>p. snd (snd ((\<lambda>(j, msg). (r msg, c msg, PInt (int j))) p))) (enumerate 0 msgs)"
    using arg_cong [OF assms, of "map (\<lambda>v. snd (snd v))"] by (simp add: comp_def)
  also have "\<dots> = map (\<lambda>p. PInt (int (fst p))) (enumerate 0 msgs)"
    by (simp add: case_prod_unfold)
  also have "\<dots> = map (\<lambda>x. PInt (int x)) (map fst (enumerate 0 msgs))"
    by (simp only: map_map comp_def)
  also have "\<dots> = map PInt (map int [0..<length msgs])"
    by (simp add: comp_def)
  finally have "map (\<lambda>n. dict_get (props n) ''order'' PNone) ns
      = map PInt (map int [0..<length msgs])"
    by (simp add: message_view_def)
  then have o: "map order_of ns = map Some (map int [0..<length msgs])"
    by (rule order_of_views)
  have all: "order_of n \<noteq> None" if "n \<in> set ns" for n
  proof -
    from that have "order_of n \<in> set (map order_of ns)" by simp
    then show ?thesis unfolding o by auto
  qed
  have "map (\<lambda>n. case order_of n of Some i \<Rightarrow> i | None \<Rightarrow> 0) ns
      = map (\<lambda>x. case x of Some i \<Rightarrow> i | None \<Rightarrow> 0) (map order_of ns)"
    by (simp add: comp_def)
  also have "\<dots> = map int [0..<length msgs]"
    unfolding o by (simp add: comp_def)
  finally have keys: "map (\<lambda>n. case order_of n of Some i \<Rightarrow> i | None \<Rightarrow> 0) ns
      = map int [0..<length msgs]" .
  have "sorted (map int [0..<length msgs])"
    by (auto simp: sorted_iff_nth_mono)
  with keys have "sort_key (\<lambda>n. case order_of n of Some i \<Rightarrow> i | None \<Rightarrow> 0) ns = ns"
    by (simp add: sort_key_id_if_sorted)
  moreover have "filter (\<lambda>n. order_of n \<noteq> None) ns = ns"
    using all by (simp add: filter_id_conv)
  moreover have "filter (\<lambda>n. order_of n = None) ns = []"
    using all by (simp add: filter_empty_conv)
  ultimately show ?thesis by (simp add: order_by_order_def)
qed

lemma contained_messages_labels: "list_all (has_label ''Message'') (contained_messages g i)"
  by (auto simp: contained_messages_def list_all_iff)

lemma graph_query_messages_ready:
  "conv_ready cid g \<Longrightarrow>
     graph_query (Conversation_messages i) g
       = (map (\<lambda>n. [(''m'', n)]) (order_by_order (contained_messages g i)), g)"
  by (simp add: conv_ready_def graph_query_def graph_ensure_driver_def session_run_def)

lemma store_conversation_fault_example:
  "store_conversation [[(''role'', ''user''), (''content'', ''hi'')],
                       [(''role'', ''assistant''), (''content'', ''hello'')]] None None
      (example_manager\<lparr>graph_db := example_graph\<lparr>g_faults := [False, True]\<rparr>\<rparr>)
   = (Inr True,
      example_manager
        \<lparr>graph_db := example_graph
           \<lparr>next_id := 3,
            nodes := [\<lparr>node_id = 1, labels = [''Conversation''],
                       props = [(''timestamp'', PStr ''63800000000000000''),
                                (''context'', PStr [])]\<rparr>,
                      \<lparr>node_id = 2, labels = [''Message''],
                       props = [(''role'', PStr ''assistant''), (''content'', PStr ''hello''),
                                (''timestamp'', PStr ''63800000002000000''),
                                (''order'', PInt 1)]\<rparr>],
            rels := [\<lparr>start_id = 1, end_id = 2, rel_type = ''CONTAINS'', rel_props = []\<rparr>]\<rparr>,
         vector_db := example_vectors
           \<lparr>collection :=
              [\<lparr>doc_text = ''user: hi'' @ [CHR 0x0A] @ ''assistant: hello'',
                doc_metadata = [(''type'', PStr ''conversation''),
                                (''timestamp'', PStr ''63800000003000000''),
                                (''context'', PStr []), (''graph_id'', PStr ''1'')],
                doc_id = ''conversation_1''\<rparr>]\<rparr>,
         ticks := 4\<rparr>)"
  by (simp add: store_conversation_def graph_defs vector_defs manager_defs example_defs
        example_iso_def str_int_examples eval_nat_numeral)

text \<open>
  C7, as the spec states it: after \<^verbatim>\<open>store_conversation\<close>, the \<^verbatim>\<open>CONTAINS\<close> traversal from the
  conversation, ordered by \<^verbatim>\<open>order\<close>, gives back the messages. It fails when the graph store
  rejects one write: with the creation of the first of two \<^verbatim>\<open>Message\<close> nodes failing,
  \<^verbatim>\<open>store_conversation\<close> still returns \<^verbatim>\<open>True\<close>, and the traversal from the conversation
  (node 1) gives the second message only.
\<close>

theorem store_conversation_loses_message:
  "fst (store_conversation [[(''role'', ''user''), (''content'', ''hi'')],
                            [(''role'', ''assistant''), (''content'', ''hello'')]] None None
          (example_manager\<lparr>graph_db := example_graph\<lparr>g_faults := [False, True]\<rparr>\<rparr>))
     = Inr True
   \<and> map (\<lambda>row. map_option message_view (map_of row ''m''))
        (fst (graph_query (Conversation_messages 1) (graph_db (snd
          (store_conversation [[(''role'', ''user''), (''content'', ''hi'')],
                               [(''role'', ''assistant''), (''content'', ''hello'')]] None None
             (example_manager\<lparr>graph_db := example_graph\<lparr>g_faults := [False, True]\<rparr>\<rparr>))))))
     = [Some (PStr ''assistant'', PStr ''hello'', PInt 1)]"
  by (simp add: store_conversation_fault_example)
     (simp add: graph_defs example_defs message_view_def dict_get_def)

text \<open>
  C7, amended. On a manager that is, or can be, initialized, when the graph store is
  reachable with no failing call ahead, its next node id is positive and is used by no
  node and at the start of no relationship yet: \<^verbatim>\<open>store_conversation\<close> returns \<^verbatim>\<open>True\<close>, and
  the query for the messages of the new conversation, ordered by \<^verbatim>\<open>order\<close>, returns one
  \<^verbatim>\<open>Message\<close> node per message, in the order of the input, whose \<^verbatim>\<open>role\<close> and \<^verbatim>\<open>content\<close> are the
  message's (\<^verbatim>\<open>"unknown"\<close> and \<^verbatim>\<open>""\<close> where the message has none) and whose \<^verbatim>\<open>order\<close> is the
  zero-based position.
\<close>

theorem store_conversation_round_trip:
  assumes init: "ensure_initialized m = (True, m1)"
    and up: "g_up (graph_db m1)"
    and nofault: "g_faults (graph_db m1) = []"
    and pos: "0 < next_id (graph_db m1)"
    and fresh: "list_all (\<lambda>n. node_id n < next_id (graph_db m1)) (nodes (graph_db m1))"
    and old: "list_all (\<lambda>r. start_id r < next_id (graph_db m1)) (rels (graph_db m1))"
  shows "\<exists>m' ns. store_conversation messages context metadata m = (Inr True, m')
      \<and> fst (graph_query (Conversation_messages (next_id (graph_db m1))) (graph_db m'))
          = map (\<lambda>n. [(''m'', n)]) ns
      \<and> list_all (has_label ''Message'') ns
      \<and> map message_view ns
          = map (\<lambda>(i, msg). (PStr (dict_get msg ''role'' ''unknown''),
                              PStr (dict_get msg ''content'' []), PInt (int i)))
                (enumerate 0 messages)"
proof -
  define g1 where "g1 = graph_db m1"
  define cid where "cid = next_id g1"
  define md where "md = (case metadata of Some md \<Rightarrow> md | None \<Rightarrow> [])"
  define ps where "ps = dict_merge [(''timestamp'', PStr (isoformat m1 (clock m1 (ticks m1)))),
                             (''context'', PStr (context_or_empty context))] md"
  define conv where "conv = \<lparr>node_id = cid, labels = [''Conversation''], props = ps\<rparr>"
  define g2 where "g2 = g1\<lparr>driver := True, nodes := nodes g1 @ [conv], next_id := cid + 1\<rparr>"
  define m2 where "m2 = m1\<lparr>ticks := Suc (ticks m1), graph_db := g2\<rparr>"
  have cn: "graph_create_node [PStr ''Conversation''] ps g1 = (Inr (Some cid), g2)"
    using up nofault
    by (cases "driver g1")
       (simp_all add: graph_create_node_def graph_ensure_driver_def graph_connect_def
          session_run_def g1_def [symmetric] g2_def conv_def cid_def)
  have "nodes_with_id g1 cid = []"
    using fresh nodes_with_id_fresh [of cid g1 cid] by (simp add: g1_def cid_def)
  then have one: "nodes_with_id g2 cid = [conv]"
    by (simp add: g2_def nodes_with_id_def conv_def)
  have ready: "conv_ready cid g2"
    using up nofault pos fresh old one
    by (auto simp: conv_ready_def g2_def g1_def [symmetric] cid_def [symmetric] conv_def
          has_label_def list_all_iff)
  have "list_all (\<lambda>r. start_id r \<noteq> cid) (rels g2)"
    using old by (auto simp: g2_def g1_def [symmetric] cid_def [symmetric] list_all_iff)
  then have empty: "contained_messages g2 cid = []"
    by (rule contained_messages_no_start)
  from ready have "conv_ready cid (graph_db m2)" by (simp add: m2_def)
  from store_messages_linked [OF this, of 0 messages] obtain m3 where
    loop: "store_messages (Some cid) 0 messages m2 = (None, m3)" and
    ready3: "conv_ready cid (graph_db m3)" and
    views: "map message_view (contained_messages (graph_db m3) cid)
          = map (\<lambda>(i, msg). (PStr (dict_get msg ''role'' ''unknown''),
                              PStr (dict_get msg ''content'' []), PInt (int i)))
                (enumerate 0 messages)"
    by (auto simp: m2_def empty)
  have "0 < cid" using pos by (simp add: cid_def g1_def)
  then have "\<exists>m'. store_conversation messages context metadata m = (Inr True, m')
      \<and> graph_db m' = graph_db m3"
    using init cn loop
    by (simp add: store_conversation_def now_iso_def now_def md_def [symmetric]
          g1_def [symmetric] ps_def [symmetric] m2_def [symmetric]
          call_add_documents_keywords)
  then obtain m' where
    sc: "store_conversation messages context metadata m = (Inr True, m')" and
    g': "graph_db m' = graph_db m3"
    by blast
  have "order_by_order (contained_messages (graph_db m3) cid)
      = contained_messages (graph_db m3) cid"
    using views by (rule order_by_order_views)
  then have "fst (graph_query (Conversation_messages cid) (graph_db m'))
      = map (\<lambda>n. [(''m'', n)]) (contained_messages (graph_db m3) cid)"
    by (simp add: g' graph_query_messages_ready [OF ready3])
  with sc views contained_messages_labels [of "graph_db m3" cid] show ?thesis
    unfolding cid_def g1_def by blast
qed

theorem store_conversation_round_trip_witness:
  "\<exists>m' ns. store_conversation [[(''role'', ''user''), (''content'', ''hi'')],
                                [(''role'', ''assistant''), (''content'', ''hello'')]]
                None None example_manager = (Inr True, m')
      \<and> fst (graph_query (Conversation_messages 1) (graph_db m')) = map (\<lambda>n. [(''m'', n)]) ns
      \<and> list_all (has_label ''Message'') ns
      \<and> map message_view ns
          = [(PStr ''user'', PStr ''hi'', PInt 0), (PStr ''assistant'', PStr ''hello'', PInt 1)]"
  using store_conversation_round_trip
          [OF ensure_initialized_id [OF initialized_examples(3)],
           of "[[(''role'', ''user''), (''content'', ''hi'')],
                [(''role'', ''assistant''), (''content'', ''hello'')]]" None None]
  by (simp add: example_defs dict_get_def)

text \<open>
  The id 0, which the server gives the first node of an empty database, is outside the
  theorem above: the loop tests both node ids for truth before it links them, so a
  conversation whose node has the id 0 gets no \<^verbatim>\<open>CONTAINS\<close> relationship.
\<close>

lemma store_conversation_first_node:
  "rels (graph_db (snd
     (store_conversation [[(''role'', ''user''), (''content'', ''hi'')]] None None
        (example_manager\<lparr>graph_db := example_graph\<lparr>next_id := 0\<rparr>\<rparr>)))) = []"
  by (simp add: store_conversation_def graph_defs vector_defs manager_defs example_defs
        example_iso_def str_int_examples)

end
